theory Spec2Isabelle
  imports Main "HOL-Library.Monad_Syntax"
begin

unbundle bit_operations_syntax

section \<open>pi-button-pipe: a shallow embedding of main.c\<close>

text \<open>
  The program watches GPIO pins through the sysfs pseudo files, debounces the interrupts
  it receives and writes one text line per event to a named pipe (or to the console).
  Everything the C code obtains from its environment (the clock, \<open>poll\<close>, the sysfs
  files) is an explicit input of the model; everything it does to the environment is
  recorded as a list of actions in program order.
\<close>

subsection \<open>Tuneable parameters and constants\<close>

definition SEC_PER_YEAR :: int where
  "SEC_PER_YEAR = 31536000"

definition CLOCK_ERROR_SECONDS :: int where
  "CLOCK_ERROR_SECONDS = SEC_PER_YEAR"

definition MAX_PINS :: nat where
  "MAX_PINS = 20"

definition BOUNCE_MSEC :: int where
  "BOUNCE_MSEC = 300"

definition EDGE_RISING :: int where
  "EDGE_RISING = 1"

definition EDGE_FALLING :: int where
  "EDGE_FALLING = 2"

text \<open>\<open>POLLPRI\<close> of \<open>poll.h\<close> on Linux.\<close>

definition POLLPRI :: int where
  "POLLPRI = 2"

subsection \<open>C integers\<close>

text \<open>
  \<open>int\<close> is 32 bits wide. The conversion of a \<open>double\<close> out of the range of \<open>int\<close>
  and a signed subtraction that overflows have undefined behaviour in C, and the
  conversion of a \<open>long\<close> out of that range is left to the implementation: \<open>to_int\<close>
  returns \<open>None\<close> there, and so does every function of the model that reaches such a
  point.
  \<open>time_t\<close> arithmetic is taken as exact (a 64 bit \<open>time_t\<close>). The product with
  \<open>1000.0\<close> and the sum are computed in \<open>double\<close>, which is exact below \<open>2^53\<close>:
  every result in the range of \<open>int\<close> is computed exactly, and every other one is
  out of that range.
\<close>

definition INT_MIN :: int where
  "INT_MIN = - 2147483648"

definition INT_MAX :: int where
  "INT_MAX = 2147483647"

definition to_int :: "int \<Rightarrow> int option" where
  "to_int v = (if INT_MIN \<le> v \<and> v \<le> INT_MAX then Some v else None)"

text \<open>Division of C: the quotient is truncated towards zero.\<close>

definition c_div :: "int \<Rightarrow> int \<Rightarrow> int" where
  "c_div a b = sgn a * sgn b * (\<bar>a\<bar> div \<bar>b\<bar>)"

subsection \<open>Text: \<open>%d\<close> and \<open>snprintf\<close>\<close>

fun show_nat :: "nat \<Rightarrow> string" where
  "show_nat n = (if n < 10 then [''0123456789'' ! n]
                 else show_nat (n div 10) @ [''0123456789'' ! (n mod 10)])"

declare show_nat.simps [simp del]

text \<open>The conversion \<open>%d\<close> of \<open>printf\<close>.\<close>

definition show_int :: "int \<Rightarrow> string" where
  "show_int v = (if v < 0 then CHR ''-'' # show_nat (nat (- v)) else show_nat (nat v))"

text \<open>\<open>snprintf (s, sizeof(s), ...)\<close> with \<open>char s[50]\<close> keeps at most 49 characters.\<close>

definition snprintf50 :: "string \<Rightarrow> string" where
  "snprintf50 text = take 49 text"

subsection \<open>Global variables\<close>

text \<open>
  \<open>pins\<close> is the array \<open>int pins[MAX_PINS]\<close>, \<open>edge\<close> the bit set of
  \<open>EDGE_RISING\<close> and \<open>EDGE_FALLING\<close>.
\<close>

record globals =
  npins :: nat
  pins :: "int list"
  no_export :: bool
  edge :: int
  bounce_time :: int

subsection \<open>What the loop reads from its environment, and what it does\<close>

text \<open>
  The answers of the environment while one entry of \<open>fdset\<close> is handled:
  \<open>revents\<close> as \<open>poll\<close> left it; the values returned by the three calls of
  \<open>time (NULL)\<close> (the macro \<open>abs\<close> evaluates its argument twice: once in its test,
  once in the arm it selects; the third call is the one assigned to \<open>start\<close>);
  the \<open>timeval\<close> of \<open>gettimeofday\<close>; and, for every path, the bytes a \<open>read\<close> of
  that file delivers, or \<open>None\<close> when it cannot be opened.
\<close>

record line_input =
  revents :: int
  time_test :: int
  time_arm :: int
  time_reset :: int
  tv_sec :: int
  tv_usec :: int
  sysfs :: "string \<Rightarrow> string option"

datatype sink = Pipe | Console

text \<open>The diagnostics written to \<open>stderr\<close>, by the message and the name it prints.\<close>

datatype diag =
    Cant_Write string
  | Too_Many_Pins
  | Cant_Open_Gpio string
  | Cant_Open_Pipe string

datatype signal = SIGHUP | SIGINT | SIGQUIT | SIGPIPE | SIGTERM

text \<open>
  What the program does, in program order. Of the loop: \<open>Poll\<close> is the call of
  \<open>poll\<close> with its timeout, \<open>Drain i\<close> the \<open>read\<close> on \<open>fdset[i].fd\<close>,
  \<open>Reset_Start t\<close> the assignment \<open>start = time (NULL)\<close>, \<open>Usleep\<close> the settling
  delay, \<open>Sample pin\<close> the call \<open>get_pin_state (pin)\<close>, \<open>Emit\<close> the
  \<open>fprintf\<close>/\<open>printf\<close> of an event, \<open>Flush\<close> the \<open>fflush\<close>, and
  \<open>Set_Tick i t\<close> the assignment \<open>ticks[i] = total_msec\<close>. Of startup and
  shutdown: \<open>Write_File f text\<close> is a \<open>write_to_file\<close> whose \<open>fopen\<close> succeeded,
  \<open>Open_Handle\<close> a successful \<open>open\<close> of a value file, \<open>Install_Handler\<close> a call
  of \<open>signal\<close>, \<open>Mkfifo\<close> and \<open>Open_Pipe\<close> the creation and opening of the pipe.
\<close>

datatype action =
    Poll nat
  | Drain nat
  | Reset_Start int
  | Usleep nat
  | Sample int
  | Emit sink string
  | Flush
  | Set_Tick nat int
  | Write_File string string
  | Open_Handle string
  | Install_Handler signal
  | Mkfifo string
  | Open_Pipe string
  | Show_Long_Usage
  | Show_Short_Usage
  | Show_Version
  | Stderr diag

text \<open>The local variables of \<open>main\<close> that the loop changes.\<close>

record loop_state =
  start :: int
  ticks :: "int list"

subsection \<open>\<open>get_pin_state\<close>\<close>

text \<open>
  \<open>read (fd, buff, n)\<close>: the number of bytes delivered and the bytes; \<open>-1\<close> when
  \<open>open\<close> had failed, since \<open>fd\<close> is then no descriptor.
\<close>

definition c_read :: "string option \<Rightarrow> nat \<Rightarrow> int \<times> string" where
  "c_read src n = (case src of
      None \<Rightarrow> (- 1, [])
    | Some bytes \<Rightarrow> (int (min n (length bytes)), take n bytes))"

definition value_path :: "int \<Rightarrow> string" where
  "value_path pin = snprintf50 (''/sys/class/gpio/gpio'' @ show_int pin @ ''/value'')"

text \<open>\<open>char buff[3]\<close>; \<open>char\<close> is unsigned, as on the ARM of the Raspberry Pi.\<close>

definition get_pin_state :: "(string \<Rightarrow> string option) \<Rightarrow> int \<Rightarrow> int" where
  "get_pin_state fs pin =
     (let s = value_path pin;
          (rc, buff) = c_read (fs s) 3
      in if rc = 2 then int (of_char (buff ! 0)) - int (of_char (CHR ''0'')) else - 1)"

subsection \<open>The body of the loop\<close>

text \<open>
  The macro \<open>#define abs(x) ((x) > 0 ? (x) : (-x))\<close> applied to the text
  \<open>time (NULL) - start\<close>: the second arm is \<open>(-time (NULL) - start)\<close>.
\<close>

definition abs_macro :: "int \<Rightarrow> int \<Rightarrow> int \<Rightarrow> int" where
  "abs_macro t_test t_arm st = (if t_test - st > 0 then t_arm - st else - t_arm - st)"

definition clock_fiddled :: "line_input \<Rightarrow> loop_state \<Rightarrow> bool" where
  "clock_fiddled inp st =
     (abs_macro (time_test inp) (time_arm inp) (start st) > CLOCK_ERROR_SECONDS)"

text \<open>
  \<open>int msec = tv.tv_usec / 1000; int total_msec = (tv.tv_sec - start) * 1000.0 + msec;\<close>
\<close>

definition total_msec_of :: "line_input \<Rightarrow> loop_state \<Rightarrow> int option" where
  "total_msec_of inp st = do {
     msec \<leftarrow> to_int (c_div (tv_usec inp) 1000);
     to_int ((tv_sec inp - start st) * 1000 + msec)
   }"

text \<open>The two \<open>fprintf\<close>/\<open>printf\<close> branches; \<open>pipe\<close> is true when \<open>pipe\<close> is not NULL.\<close>

definition event_text :: "globals \<Rightarrow> int \<Rightarrow> int \<Rightarrow> string" where
  "event_text g pin state =
     (if edge g = (EDGE_FALLING OR EDGE_RISING)
      then show_int pin @ '' '' @ show_int state @ [CHR 10]
      else show_int pin @ [CHR 10])"

definition report :: "globals \<Rightarrow> bool \<Rightarrow> int \<Rightarrow> int \<Rightarrow> action list" where
  "report g pipe pin state =
     (if (state = 0 \<and> (edge g AND EDGE_FALLING) \<noteq> 0)
         \<or> (state = 1 \<and> (edge g AND EDGE_RISING) \<noteq> 0)
      then (if pipe then [Emit Pipe (event_text g pin state), Flush]
            else [Emit Console (event_text g pin state)])
      else [])"

text \<open>
  The arrays \<open>pins\<close> and \<open>ticks\<close> are lists; an index beyond a list is an access beyond
  the array, which C leaves undefined.
\<close>

definition in_arrays :: "globals \<Rightarrow> loop_state \<Rightarrow> nat \<Rightarrow> bool" where
  "in_arrays g st i = (i < length (pins g) \<and> i < length (ticks st))"

text \<open>One iteration of \<open>for (i = 0; i < npins; i++)\<close> inside the endless loop.\<close>

definition process_line ::
  "globals \<Rightarrow> bool \<Rightarrow> nat \<Rightarrow> line_input \<Rightarrow> loop_state \<Rightarrow> (loop_state \<times> action list) option" where
  "process_line g pipe i inp st =
     (if \<not> in_arrays g st i then None
      else if (revents inp AND POLLPRI) = 0 then Some (st, [])
      else
        let pin = pins g ! i in
        if clock_fiddled inp st
        then Some (st\<lparr>start := time_reset inp\<rparr>, [Drain i, Reset_Start (time_reset inp)])
        else do {
          total_msec \<leftarrow> total_msec_of inp st;
          since \<leftarrow> to_int (total_msec - ticks st ! i);
          if since > bounce_time g \<and> total_msec > 1000
          then
            let state = get_pin_state (sysfs inp) pin in
            Some (st\<lparr>ticks := (ticks st)[i := total_msec]\<rparr>,
                  [Drain i, Usleep 2000, Sample pin] @ report g pipe pin state
                    @ [Set_Tick i total_msec])
          else Some (st, [Drain i])
        })"

text \<open>
  \<open>for (i = 0; i < npins; i++)\<close> over the entries of \<open>fdset\<close>, from entry \<open>i\<close> on:
  the list holds the environment's answers for the entries \<open>i\<close>, \<open>i + 1\<close>, ...; an
  entry the list has no answer for is one that \<open>poll\<close> left unmarked.
\<close>

fun process_lines ::
  "globals \<Rightarrow> bool \<Rightarrow> nat \<Rightarrow> line_input list \<Rightarrow> loop_state \<Rightarrow> (loop_state \<times> action list) option" where
  "process_lines g pipe i [] st = Some (st, [])"
| "process_lines g pipe i (inp # rest) st =
     (if i < npins g then do {
        (st1, a1) \<leftarrow> process_line g pipe i inp st;
        (st2, a2) \<leftarrow> process_lines g pipe (Suc i) rest st1;
        Some (st2, a1 @ a2)
      } else Some (st, []))"

text \<open>One pass of \<open>for (;;)\<close>: \<open>poll (fdset, npins, 3000)\<close>, then the entries.\<close>

definition process_cycle ::
  "globals \<Rightarrow> bool \<Rightarrow> line_input list \<Rightarrow> loop_state \<Rightarrow> (loop_state \<times> action list) option" where
  "process_cycle g pipe inps st = do {
     (st1, a1) \<leftarrow> process_lines g pipe 0 inps st;
     Some (st1, Poll 3000 # a1)
   }"

text \<open>
  The loop never ends by itself: the process ends by a signal only. \<open>run_loop\<close> is the
  loop over a finite number of wake-ups, one list of answers for each.
\<close>

fun run_loop ::
  "globals \<Rightarrow> bool \<Rightarrow> line_input list list \<Rightarrow> loop_state \<Rightarrow> (loop_state \<times> action list) option" where
  "run_loop g pipe [] st = Some (st, [])"
| "run_loop g pipe (c # cs) st = do {
     (st1, a1) \<leftarrow> process_cycle g pipe c st;
     (st2, a2) \<leftarrow> run_loop g pipe cs st1;
     Some (st2, a1 @ a2)
   }"

text \<open>The values assigned to \<open>ticks[l]\<close>, and the event texts written, in order.\<close>

fun tick_times :: "nat \<Rightarrow> action list \<Rightarrow> int list" where
  "tick_times l [] = []"
| "tick_times l (Set_Tick i t # as) = (if i = l then t # tick_times l as else tick_times l as)"
| "tick_times l (a # as) = tick_times l as"

fun emitted :: "action list \<Rightarrow> string list" where
  "emitted [] = []"
| "emitted (Emit k text # as) = text # emitted as"
| "emitted (a # as) = emitted as"

subsection \<open>Processes that may call \<open>exit\<close>\<close>

text \<open>
  A part of the program that may end the process: the actions it performed, and either
  the argument of the \<open>exit\<close> it called (\<open>Inl\<close>) or its result.
\<close>

type_synonym 'a proc = "action list \<times> (int + 'a)"

definition exit_with :: "int \<Rightarrow> 'a proc" where
  "exit_with code = ([], Inl code)"

definition ret :: "'a \<Rightarrow> 'a proc" where
  "ret x = ([], Inr x)"

definition act :: "action \<Rightarrow> unit proc" where
  "act a = ([a], Inr ())"

definition pbind :: "'a proc \<Rightarrow> ('a \<Rightarrow> 'b proc) \<Rightarrow> 'b proc" where
  "pbind m f = (case m of
      (a, Inl code) \<Rightarrow> (a, Inl code)
    | (a, Inr x) \<Rightarrow> (case f x of (b, r) \<Rightarrow> (a @ b, r)))"

text \<open>The status the parent of the process sees: the low eight bits.\<close>

definition exit_status :: "int \<Rightarrow> int" where
  "exit_status code = code AND 255"

subsection \<open>Export and unexport\<close>

text \<open>
  What startup and shutdown ask of the environment: whether \<open>fopen (file, "w")\<close>
  succeeds, whether \<open>open (file, O_RDONLY|O_NONBLOCK)\<close> does, and the value of
  \<open>time (NULL)\<close>.
\<close>

record env =
  fopen_w :: "string \<Rightarrow> bool"
  open_r :: "string \<Rightarrow> bool"
  time_now :: int

definition write_to_file :: "env \<Rightarrow> string \<Rightarrow> string \<Rightarrow> unit proc" where
  "write_to_file e file text =
     (if fopen_w e file then act (Write_File file text)
      else pbind (act (Stderr (Cant_Write file))) (\<lambda>_. exit_with (- 1)))"

definition unexport_path :: string where
  "unexport_path = ''/sys/class/gpio/unexport''"

definition export_path :: string where
  "export_path = ''/sys/class/gpio/export''"

definition direction_path :: "int \<Rightarrow> string" where
  "direction_path pin = snprintf50 (''/sys/class/gpio/gpio'' @ show_int pin @ ''/direction'')"

definition edge_path :: "int \<Rightarrow> string" where
  "edge_path pin = snprintf50 (''/sys/class/gpio/gpio'' @ show_int pin @ ''/edge'')"

text \<open>The loop of \<open>unexport_pins\<close> over the indices it still has to visit.\<close>

fun unexport_loop :: "env \<Rightarrow> globals \<Rightarrow> nat list \<Rightarrow> unit proc" where
  "unexport_loop e g [] = ret ()"
| "unexport_loop e g (i # rest) =
     pbind (write_to_file e unexport_path (snprintf50 (show_int (pins g ! i))))
       (\<lambda>_. unexport_loop e g rest)"

definition unexport_pins :: "env \<Rightarrow> globals \<Rightarrow> unit proc" where
  "unexport_pins e g = unexport_loop e g [0..<npins g]"

fun export_loop :: "env \<Rightarrow> globals \<Rightarrow> nat list \<Rightarrow> unit proc" where
  "export_loop e g [] = ret ()"
| "export_loop e g (i # rest) =
     (let pin = pins g ! i in
      pbind (write_to_file e export_path (snprintf50 (show_int pin))) (\<lambda>_.
      pbind (write_to_file e (direction_path pin) ''in'') (\<lambda>_.
      pbind (write_to_file e (edge_path pin) ''both'') (\<lambda>_.
      export_loop e g rest))))"

definition export_pins :: "env \<Rightarrow> globals \<Rightarrow> unit proc" where
  "export_pins e g = export_loop e g [0..<npins g]"

text \<open>The handler of the signals; it ignores its argument.\<close>

definition quit_signal :: "env \<Rightarrow> globals \<Rightarrow> signal \<Rightarrow> unit proc" where
  "quit_signal e g dummy =
     pbind (if \<not> no_export g then unexport_pins e g else ret ()) (\<lambda>_. exit_with 0)"

subsection \<open>\<open>main\<close> up to the loop\<close>

text \<open>\<open>atoi\<close>: white space, a sign, decimal digits; the value is not reduced to 32 bits.\<close>

definition isspace :: "char \<Rightarrow> bool" where
  "isspace c = (c \<in> set [CHR '' '', CHR 9, CHR 10, CHR 11, CHR 12, CHR 13])"

definition isdigit :: "char \<Rightarrow> bool" where
  "isdigit c = (c \<in> set ''0123456789'')"

definition digits_value :: "string \<Rightarrow> int" where
  "digits_value ds = foldl (\<lambda>acc d. acc * 10 + (int (of_char d) - int (of_char (CHR ''0'')))) 0 ds"

definition atoi :: "string \<Rightarrow> int" where
  "atoi s =
     (let s1 = dropWhile isspace s in
      if s1 \<noteq> [] \<and> hd s1 = CHR ''-'' then - digits_value (takeWhile isdigit (tl s1))
      else if s1 \<noteq> [] \<and> hd s1 = CHR ''+'' then digits_value (takeWhile isdigit (tl s1))
      else digits_value (takeWhile isdigit s1))"

text \<open>The local flags of \<open>main\<close> that the options set.\<close>

record flags =
  export_only :: bool
  unexport_only :: bool
  debug :: bool

definition initial_globals :: globals where
  "initial_globals =
     \<lparr>npins = 0, pins = replicate MAX_PINS 0, no_export = False,
      edge = (EDGE_RISING OR EDGE_FALLING), bounce_time = BOUNCE_MSEC\<rparr>"

definition initial_flags :: flags where
  "initial_flags = \<lparr>export_only = False, unexport_only = False, debug = False\<rparr>"

text \<open>
  The \<open>while\<close> loop over the values \<open>getopt\<close> returns, each with its \<open>optarg\<close>;
  \<open>getopt\<close> returns \<open>?\<close> for an option it does not know.
\<close>

fun getopt_loop :: "(char \<times> string) list \<Rightarrow> globals \<Rightarrow> flags \<Rightarrow> (globals \<times> flags) proc" where
  "getopt_loop [] g f = ret (g, f)"
| "getopt_loop ((c, optarg) # rest) g f =
     (if c = CHR ''h'' then pbind (act Show_Long_Usage) (\<lambda>_. exit_with (- 1))
      else if c = CHR ''b'' then getopt_loop rest (g\<lparr>bounce_time := atoi optarg\<rparr>) f
      else if c = CHR ''d'' then getopt_loop rest g (f\<lparr>debug := True\<rparr>)
      else if c = CHR ''e'' then getopt_loop rest g (f\<lparr>export_only := True\<rparr>)
      else if c = CHR ''n'' then getopt_loop rest (g\<lparr>no_export := True\<rparr>) f
      else if c = CHR ''u'' then getopt_loop rest g (f\<lparr>unexport_only := True\<rparr>)
      else if c = CHR ''r'' then getopt_loop rest (g\<lparr>edge := EDGE_RISING\<rparr>) f
      else if c = CHR ''f'' then getopt_loop rest (g\<lparr>edge := EDGE_FALLING\<rparr>) f
      else if c = CHR ''v'' then pbind (act Show_Version) (\<lambda>_. exit_with (- 1))
      else pbind (act Show_Short_Usage) (\<lambda>_. exit_with (- 1)))"

text \<open>The loop that opens the value file of every pin.\<close>

fun open_loop :: "env \<Rightarrow> globals \<Rightarrow> nat list \<Rightarrow> unit proc" where
  "open_loop e g [] = ret ()"
| "open_loop e g (i # rest) =
     (let s = value_path (pins g ! i) in
      if \<not> open_r e s
      then pbind (act (Stderr (Cant_Open_Gpio s))) (\<lambda>_. exit_with (- 1))
      else pbind (act (Open_Handle s)) (\<lambda>_. open_loop e g rest))"

definition install_handlers :: "unit proc" where
  "install_handlers =
     pbind (act (Install_Handler SIGQUIT)) (\<lambda>_.
     pbind (act (Install_Handler SIGTERM)) (\<lambda>_.
     pbind (act (Install_Handler SIGHUP)) (\<lambda>_.
     pbind (act (Install_Handler SIGINT)) (\<lambda>_.
     act (Install_Handler SIGPIPE)))))"

definition DEFAULT_PIPE_FILENAME :: string where
  "DEFAULT_PIPE_FILENAME = ''/tmp/pi-buttons''"

text \<open>The result is whether \<open>pipe\<close> is not NULL.\<close>

definition open_pipe :: "env \<Rightarrow> flags \<Rightarrow> bool proc" where
  "open_pipe e f =
     (if \<not> debug f
      then pbind (act (Mkfifo DEFAULT_PIPE_FILENAME)) (\<lambda>_.
           if \<not> fopen_w e DEFAULT_PIPE_FILENAME
           then pbind (act (Stderr (Cant_Open_Pipe DEFAULT_PIPE_FILENAME))) (\<lambda>_. exit_with (- 1))
           else pbind (act (Open_Pipe DEFAULT_PIPE_FILENAME)) (\<lambda>_. ret True))
      else ret False)"

text \<open>
  \<open>main\<close> from its first statement to the entry of \<open>for (;;)\<close>. The arguments are what
  \<open>getopt\<close> returns and the words \<open>argv[optind]\<close>, ..., \<open>argv[argc - 1]\<close>. The result
  is the state in which the loop starts: the globals, whether \<open>pipe\<close> is not NULL, and
  \<open>start\<close> and \<open>ticks\<close>.
\<close>

definition startup ::
  "env \<Rightarrow> (char \<times> string) list \<Rightarrow> string list \<Rightarrow> (globals \<times> bool \<times> loop_state) proc" where
  "startup e opts args =
     pbind (getopt_loop opts initial_globals initial_flags) (\<lambda>(g0, f).
       let nargs = length args in
       if nargs < 1 then pbind (act Show_Short_Usage) (\<lambda>_. exit_with (- 1))
       else if nargs > MAX_PINS then pbind (act (Stderr Too_Many_Pins)) (\<lambda>_. exit_with (- 1))
       else
         let g = g0\<lparr>pins := map atoi args @ drop nargs (pins g0), npins := nargs\<rparr>;
             st = \<lparr>start = time_now e, ticks = replicate MAX_PINS 0\<rparr>
         in
         if unexport_only f then pbind (unexport_pins e g) (\<lambda>_. exit_with 0)
         else if export_only f then pbind (export_pins e g) (\<lambda>_. exit_with 0)
         else
           pbind (if \<not> no_export g then export_pins e g else ret ()) (\<lambda>_.
           pbind (open_loop e g [0..<npins g]) (\<lambda>_.
           pbind install_handlers (\<lambda>_.
           pbind (open_pipe e f) (\<lambda>pipe.
           ret (g, pipe, st))))))"

text \<open>The texts written to the export and to the unexport file, in order.\<close>

fun exported :: "action list \<Rightarrow> string list" where
  "exported [] = []"
| "exported (Write_File file text # as) =
     (if file = export_path then text # exported as else exported as)"
| "exported (a # as) = exported as"

fun released :: "action list \<Rightarrow> string list" where
  "released [] = []"
| "released (Write_File file text # as) =
     (if file = unexport_path then text # released as else released as)"
| "released (a # as) = released as"

text \<open>The actions that acquire a resource: a write to a file, an open, the pipe.\<close>

fun acquires :: "action \<Rightarrow> bool" where
  "acquires (Write_File file text) = True"
| "acquires (Open_Handle file) = True"
| "acquires (Mkfifo file) = True"
| "acquires (Open_Pipe file) = True"
| "acquires a = False"

subsection \<open>The format of the value file, in the words of the specification\<close>

text \<open>
  The expected format of a value, as the specification words it: exactly one digit
  and a terminator.
\<close>

definition spec_value_format :: "string \<Rightarrow> bool" where
  "spec_value_format bytes = (length bytes = 2 \<and> isdigit (bytes ! 0) \<and> bytes ! 1 = CHR 10)"

subsection \<open>Concrete configurations and inputs\<close>

text \<open>
  The configuration after \<open>pi-button-pipe 17 27\<close>, the same with \<open>-r\<close> and with
  \<open>-f\<close>, and the state in which the loop starts when the clock read 1700000000.
\<close>

definition both_edges :: globals where
  "both_edges =
     \<lparr>npins = 2, pins = [17, 27] @ replicate 18 0, no_export = False,
      edge = (EDGE_RISING OR EDGE_FALLING), bounce_time = BOUNCE_MSEC\<rparr>"

definition rising_only :: globals where
  "rising_only = both_edges\<lparr>edge := EDGE_RISING\<rparr>"

definition falling_only :: globals where
  "falling_only = both_edges\<lparr>edge := EDGE_FALLING\<rparr>"

definition boot_state :: loop_state where
  "boot_state = \<lparr>start = 1700000000, ticks = replicate MAX_PINS 0\<rparr>"

text \<open>
  An entry that \<open>poll\<close> marked with \<open>POLLPRI\<close> while every clock call answers
  \<open>sec\<close> seconds (and \<open>usec\<close> microseconds) and every value file holds \<open>content\<close>;
  and an entry that \<open>poll\<close> left unmarked.
\<close>

definition signaled_at :: "int \<Rightarrow> int \<Rightarrow> string option \<Rightarrow> line_input" where
  "signaled_at sec usec content =
     \<lparr>revents = POLLPRI, time_test = sec, time_arm = sec, time_reset = sec,
      tv_sec = sec, tv_usec = usec, sysfs = (\<lambda>_. content)\<rparr>"

definition quiet_at :: "int \<Rightarrow> int \<Rightarrow> line_input" where
  "quiet_at sec usec = (signaled_at sec usec None)\<lparr>revents := 0\<rparr>"

definition high :: "string option" where
  "high = Some [CHR ''1'', CHR 10]"

definition low :: "string option" where
  "low = Some [CHR ''0'', CHR 10]"

text \<open>
  Pin 17 in the first second after the clock read 1700000001: a press seen at 1200 ms,
  a bounce at 1250 ms, the release at 1600 ms, a second press at 1400 ms; and an
  interrupt at 1200 ms after which the value file cannot be read, or holds two bytes
  that are no digit and terminator.
\<close>

definition press_1200 :: line_input where
  "press_1200 = signaled_at 1700000001 200000 high"

definition bounce_1250 :: line_input where
  "bounce_1250 = signaled_at 1700000001 250000 low"

definition release_1600 :: line_input where
  "release_1600 = signaled_at 1700000001 600000 low"

definition release_1200 :: line_input where
  "release_1200 = signaled_at 1700000001 200000 low"

definition press_1400 :: line_input where
  "press_1400 = signaled_at 1700000001 400000 high"

definition unreadable_1200 :: line_input where
  "unreadable_1200 = signaled_at 1700000001 200000 None"

definition garbled_1200 :: line_input where
  "garbled_1200 = signaled_at 1700000001 200000 (Some ''0x'')"

text \<open>
  A machine without a real-time clock: the loop started when the clock read 100; the
  time was then set, and the clock reads 2000000000 while entry 0 is handled and
  2000000001 while entry 1 is handled, 6 ms later.
\<close>

definition cold_state :: loop_state where
  "cold_state = \<lparr>start = 100, ticks = replicate MAX_PINS 0\<rparr>"

definition time_set :: line_input where
  "time_set = signaled_at 2000000000 999000 high"

definition soon_after :: line_input where
  "soon_after = signaled_at 2000000001 5000 high"

text \<open>
  Pin 17 after 24 days, 20 hours, 31 minutes and 23 seconds of running, the clock
  never touched: an interrupt 2147483647 ms after the start time, the largest \<open>int\<close>,
  and one a millisecond later.
\<close>

definition uptime_2147483647 :: line_input where
  "uptime_2147483647 = signaled_at 1702147483 647000 high"

definition uptime_2147483648 :: line_input where
  "uptime_2147483648 = signaled_at 1702147483 648000 high"

text \<open>An environment in which every file opens, and one in which no file opens for writing.\<close>

definition all_open :: env where
  "all_open = \<lparr>fopen_w = (\<lambda>_. True), open_r = (\<lambda>_. True), time_now = 1700000000\<rparr>"

definition read_only :: env where
  "read_only = all_open\<lparr>fopen_w := (\<lambda>_. False)\<rparr>"

text \<open>An environment in which the value file of pin 27 does not open.\<close>

definition no_value_27 :: env where
  "no_value_27 = all_open\<lparr>open_r := (\<lambda>file. file \<noteq> value_path 27)\<rparr>"

section \<open>Properties\<close>

subsection \<open>The body of the loop, case by case\<close>

lemma to_int_Some: "to_int v = Some d \<longleftrightarrow> d = v \<and> INT_MIN \<le> v \<and> v \<le> INT_MAX"
  by (auto simp: to_int_def)

lemma process_line_in_arrays:
  "process_line g pipe i inp st = Some r \<Longrightarrow> in_arrays g st i"
  by (simp add: process_line_def split: if_splits)

lemma in_arrays_ticks [simp]:
  "in_arrays g (st\<lparr>ticks := (ticks st)[i := t]\<rparr>) j = in_arrays g st j"
  by (simp add: in_arrays_def)

lemma process_line_idle:
  "in_arrays g st i \<Longrightarrow> (revents inp AND POLLPRI) = 0 \<Longrightarrow>
   process_line g pipe i inp st = Some (st, [])"
  by (simp add: process_line_def)

lemma process_line_reset:
  "in_arrays g st i \<Longrightarrow> (revents inp AND POLLPRI) \<noteq> 0 \<Longrightarrow> clock_fiddled inp st \<Longrightarrow>
   process_line g pipe i inp st =
     Some (st\<lparr>start := time_reset inp\<rparr>, [Drain i, Reset_Start (time_reset inp)])"
  by (simp add: process_line_def)

lemma process_line_accept:
  "in_arrays g st i \<Longrightarrow> (revents inp AND POLLPRI) \<noteq> 0 \<Longrightarrow> \<not> clock_fiddled inp st \<Longrightarrow>
   total_msec_of inp st = Some t \<Longrightarrow> to_int (t - ticks st ! i) = Some d \<Longrightarrow>
   d > bounce_time g \<Longrightarrow> t > 1000 \<Longrightarrow>
   process_line g pipe i inp st =
     Some (st\<lparr>ticks := (ticks st)[i := t]\<rparr>,
           [Drain i, Usleep 2000, Sample (pins g ! i)]
             @ report g pipe (pins g ! i) (get_pin_state (sysfs inp) (pins g ! i))
             @ [Set_Tick i t])"
  by (simp add: process_line_def Let_def)

lemma process_line_bounce:
  "in_arrays g st i \<Longrightarrow> (revents inp AND POLLPRI) \<noteq> 0 \<Longrightarrow> \<not> clock_fiddled inp st \<Longrightarrow>
   total_msec_of inp st = Some t \<Longrightarrow> to_int (t - ticks st ! i) = Some d \<Longrightarrow>
   \<not> (d > bounce_time g \<and> t > 1000) \<Longrightarrow>
   process_line g pipe i inp st = Some (st, [Drain i])"
  by (simp add: process_line_def Let_def)

lemma process_line_defined:
  "(revents inp AND POLLPRI) \<noteq> 0 \<Longrightarrow> \<not> clock_fiddled inp st \<Longrightarrow>
   process_line g pipe i inp st = Some r \<Longrightarrow>
   \<exists>t. total_msec_of inp st = Some t \<and> to_int (t - ticks st ! i) = Some (t - ticks st ! i)"
  by (auto simp: process_line_def Let_def to_int_Some bind_eq_Some_conv split: if_splits)

text \<open>The four ways through the body.\<close>

lemma process_line_cases:
  assumes "process_line g pipe i inp st = Some (st', acts)"
  obtains
    (idle) "(revents inp AND POLLPRI) = 0" "st' = st" "acts = []"
  | (reset) "(revents inp AND POLLPRI) \<noteq> 0" "clock_fiddled inp st"
      "st' = st\<lparr>start := time_reset inp\<rparr>" "acts = [Drain i, Reset_Start (time_reset inp)]"
  | (bounce) t where "(revents inp AND POLLPRI) \<noteq> 0" "\<not> clock_fiddled inp st"
      "total_msec_of inp st = Some t" "\<not> (t - ticks st ! i > bounce_time g \<and> t > 1000)"
      "st' = st" "acts = [Drain i]"
  | (accept) t where "(revents inp AND POLLPRI) \<noteq> 0" "\<not> clock_fiddled inp st"
      "total_msec_of inp st = Some t" "t - ticks st ! i > bounce_time g" "t > 1000"
      "st' = st\<lparr>ticks := (ticks st)[i := t]\<rparr>"
      "acts = [Drain i, Usleep 2000, Sample (pins g ! i)]
             @ report g pipe (pins g ! i) (get_pin_state (sysfs inp) (pins g ! i))
             @ [Set_Tick i t]"
proof -
  note inside = process_line_in_arrays [OF assms]
  show ?thesis
  proof (cases "(revents inp AND POLLPRI) = 0")
    case True
    from process_line_idle [OF inside True] assms
    have "st' = st" and "acts = []"
      by simp_all
    with True show ?thesis by (rule idle)
  next
    case signaled: False
    show ?thesis
    proof (cases "clock_fiddled inp st")
      case True
      from process_line_reset [OF inside signaled True] assms
      have "st' = st\<lparr>start := time_reset inp\<rparr>"
        and "acts = [Drain i, Reset_Start (time_reset inp)]"
        by simp_all
      with signaled True show ?thesis by (rule reset)
    next
      case guard: False
      from process_line_defined [OF signaled guard assms]
      obtain t where t: "total_msec_of inp st = Some t"
        and d: "to_int (t - ticks st ! i) = Some (t - ticks st ! i)"
        by blast
      show ?thesis
      proof (cases "t - ticks st ! i > bounce_time g \<and> t > 1000")
        case True
        then have pass: "t - ticks st ! i > bounce_time g" "t > 1000"
          by simp_all
        from process_line_accept [OF inside signaled guard t d pass] assms
        have "st' = st\<lparr>ticks := (ticks st)[i := t]\<rparr>"
          and "acts = [Drain i, Usleep 2000, Sample (pins g ! i)]
             @ report g pipe (pins g ! i) (get_pin_state (sysfs inp) (pins g ! i))
             @ [Set_Tick i t]"
          by simp_all
        with signaled guard t pass show ?thesis by (rule accept)
      next
        case False
        from process_line_bounce [OF inside signaled guard t d False] assms
        have "st' = st" and "acts = [Drain i]"
          by simp_all
        with signaled guard t False show ?thesis by (rule bounce)
      qed
    qed
  qed
qed

lemma tick_times_append: "tick_times l (as @ bs) = tick_times l as @ tick_times l bs"
  by (induction l as rule: tick_times.induct) simp_all

lemma tick_times_report: "tick_times l (report g pipe pin state) = []"
  by (simp add: report_def)

lemma report_emits:
  "Emit k text \<in> set (report g pipe pin state) \<Longrightarrow>
     text = event_text g pin state
   \<and> ((state = 0 \<and> (edge g AND EDGE_FALLING) \<noteq> 0) \<or> (state = 1 \<and> (edge g AND EDGE_RISING) \<noteq> 0))"
  by (auto simp: report_def split: if_splits)

lemma show_int_0: "show_int 0 = ''0''"
  by (simp add: show_int_def show_nat.simps)

lemma show_int_1: "show_int 1 = ''1''"
  by (simp add: show_int_def show_nat.simps)

text \<open>
  Inside the arrays and the range of \<open>int\<close> the body has defined behaviour: the clock
  did not go back behind \<open>start\<close>, less than 2147483 seconds (24 days) have passed
  since, and \<open>ticks[i]\<close> holds an earlier time.
\<close>

lemma process_line_returns:
  assumes inside: "in_arrays g st i"
      and usec: "0 \<le> tv_usec inp" "tv_usec inp < 1000000"
      and sec: "start st \<le> tv_sec inp" "tv_sec inp - start st < 2147483"
      and tick: "0 \<le> ticks st ! i" "ticks st ! i \<le> INT_MAX"
  shows "\<exists>r. process_line g pipe i inp st = Some r"
proof -
  from usec have msec: "c_div (tv_usec inp) 1000 = tv_usec inp div 1000"
    by (simp add: c_div_def sgn_if)
  from usec have range: "0 \<le> tv_usec inp div 1000" "tv_usec inp div 1000 < 1000"
    by simp_all
  define t where "t = (tv_sec inp - start st) * 1000 + tv_usec inp div 1000"
  from sec range have t: "0 \<le> t" "t \<le> INT_MAX"
    by (simp_all add: t_def INT_MAX_def)
  from range have "to_int (c_div (tv_usec inp) 1000) = Some (tv_usec inp div 1000)"
    by (simp add: msec to_int_Some INT_MIN_def INT_MAX_def)
  moreover from t have "to_int t = Some t"
    by (simp add: to_int_Some INT_MIN_def)
  ultimately have now: "total_msec_of inp st = Some t"
    by (simp add: total_msec_of_def t_def)
  from t tick have since: "to_int (t - ticks st ! i) = Some (t - ticks st ! i)"
    by (simp add: to_int_Some INT_MIN_def INT_MAX_def)
  show ?thesis
    by (simp add: process_line_def inside now since Let_def)
qed

subsection \<open>The debounce test\<close>

text \<open>
  Let an entry be signaled and pass the clock test, and let the body have defined
  behaviour. Then the elapsed time \<open>now_ms\<close> is the seconds since \<open>start\<close> times 1000
  plus the milliseconds of the clock, and the transition is accepted (the assignment
  \<open>ticks[i] = total_msec\<close> is executed, with \<open>now_ms\<close>) if and only if
  \<open>now_ms - ticks[i] > bounce_time\<close> and \<open>now_ms > 1000\<close>. When it is accepted the new
  state is the old one with \<open>ticks[i]\<close> set to \<open>now_ms\<close>; when it is not, nothing but the
  draining read happens and the state is unchanged. In particular nothing is accepted
  while \<open>now_ms\<close> is at most 1000.
\<close>

lemma total_msec_of_Some:
  "total_msec_of inp st = Some t \<Longrightarrow>
   t = (tv_sec inp - start st) * 1000 + c_div (tv_usec inp) 1000"
  by (auto simp: total_msec_of_def bind_eq_Some_conv to_int_Some)

lemma debounce_when_defined:
  assumes signaled: "(revents inp AND POLLPRI) \<noteq> 0"
      and guard: "\<not> clock_fiddled inp st"
      and run: "process_line g pipe i inp st = Some (st', acts)"
  shows "\<exists>now_ms. total_msec_of inp st = Some now_ms
           \<and> now_ms = (tv_sec inp - start st) * 1000 + c_div (tv_usec inp) 1000
           \<and> (Set_Tick i now_ms \<in> set acts
                \<longleftrightarrow> now_ms - ticks st ! i > bounce_time g \<and> now_ms > 1000)
           \<and> (if now_ms - ticks st ! i > bounce_time g \<and> now_ms > 1000
               then st' = st\<lparr>ticks := (ticks st)[i := now_ms]\<rparr>
               else st' = st \<and> acts = [Drain i])
           \<and> (now_ms \<le> 1000 \<longrightarrow> st' = st \<and> acts = [Drain i])"
proof -
  from process_line_defined [OF signaled guard run]
  obtain t where t: "total_msec_of inp st = Some t"
    and d: "to_int (t - ticks st ! i) = Some (t - ticks st ! i)"
    by blast
  show ?thesis
  proof (cases "t - ticks st ! i > bounce_time g \<and> t > 1000")
    case True
    then have "process_line g pipe i inp st =
        Some (st\<lparr>ticks := (ticks st)[i := t]\<rparr>,
              [Drain i, Usleep 2000, Sample (pins g ! i)]
                @ report g pipe (pins g ! i) (get_pin_state (sysfs inp) (pins g ! i))
                @ [Set_Tick i t])"
      using process_line_accept [OF process_line_in_arrays [OF run] signaled guard t d] by simp
    with run have "st' = st\<lparr>ticks := (ticks st)[i := t]\<rparr>"
      and "Set_Tick i t \<in> set acts"
      by auto
    with t total_msec_of_Some [OF t] True show ?thesis by auto
  next
    case False
    then have "process_line g pipe i inp st = Some (st, [Drain i])"
      using process_line_bounce [OF process_line_in_arrays [OF run] signaled guard t d] by simp
    with run have "st' = st" and "acts = [Drain i]"
      by auto
    with t total_msec_of_Some [OF t] False show ?thesis by auto
  qed
qed

text \<open>
  The press at 1200 ms is accepted and the bounce 50 ms later is not.
\<close>

lemma debounce_when_defined_example:
  "(revents bounce_1250 AND POLLPRI) \<noteq> 0
   \<and> \<not> clock_fiddled bounce_1250 (boot_state\<lparr>ticks := (ticks boot_state)[0 := 1200]\<rparr>)
   \<and> process_line both_edges True 0 bounce_1250
        (boot_state\<lparr>ticks := (ticks boot_state)[0 := 1200]\<rparr>)
       = Some (boot_state\<lparr>ticks := (ticks boot_state)[0 := 1200]\<rparr>, [Drain 0])
   \<and> total_msec_of bounce_1250 (boot_state\<lparr>ticks := (ticks boot_state)[0 := 1200]\<rparr>) = Some 1250
   \<and> Set_Tick 0 1250 \<notin> set [Drain 0]
   \<and> (revents press_1200 AND POLLPRI) \<noteq> 0
   \<and> \<not> clock_fiddled press_1200 boot_state
   \<and> process_line both_edges True 0 press_1200 boot_state
       = Some (boot_state\<lparr>ticks := (ticks boot_state)[0 := 1200]\<rparr>,
               [Drain 0, Usleep 2000, Sample 17, Emit Pipe (''17 1'' @ [CHR 10]), Flush,
                Set_Tick 0 1200])
   \<and> (\<exists>now_ms. total_msec_of press_1200 boot_state = Some now_ms
         \<and> (Set_Tick 0 now_ms \<in> set [Drain 0, Usleep 2000, Sample 17,
                 Emit Pipe (''17 1'' @ [CHR 10]), Flush, Set_Tick 0 1200]
              \<longleftrightarrow> now_ms - ticks boot_state ! 0 > bounce_time both_edges \<and> now_ms > 1000))"
proof -
  let ?st = "boot_state\<lparr>ticks := (ticks boot_state)[0 := 1200]\<rparr>"
  have b1: "(revents bounce_1250 AND POLLPRI) \<noteq> 0"
    by code_simp
  have b2: "\<not> clock_fiddled bounce_1250 ?st"
    by code_simp
  have b3: "process_line both_edges True 0 bounce_1250 ?st = Some (?st, [Drain 0])"
    by code_simp
  have b4: "total_msec_of bounce_1250 ?st = Some 1250"
    by code_simp
  have p1: "(revents press_1200 AND POLLPRI) \<noteq> 0"
    by code_simp
  have p2: "\<not> clock_fiddled press_1200 boot_state"
    by code_simp
  have p3: "process_line both_edges True 0 press_1200 boot_state
       = Some (?st, [Drain 0, Usleep 2000, Sample 17, Emit Pipe (''17 1'' @ [CHR 10]), Flush,
                     Set_Tick 0 1200])"
    by code_simp
  from debounce_when_defined [OF p1 p2 p3]
  have "\<exists>now_ms. total_msec_of press_1200 boot_state = Some now_ms
         \<and> (Set_Tick 0 now_ms \<in> set [Drain 0, Usleep 2000, Sample 17,
                 Emit Pipe (''17 1'' @ [CHR 10]), Flush, Set_Tick 0 1200]
              \<longleftrightarrow> now_ms - ticks boot_state ! 0 > bounce_time both_edges \<and> now_ms > 1000)"
    by blast
  with b1 b2 b3 b4 p1 p2 p3 show ?thesis
    by simp
qed

text \<open>
  While less than 2147483 seconds have passed since \<open>start\<close> and the clock did not go
  back behind it, the body does return, and the debounce test is the one above.
\<close>

lemma debounce_in_range:
  assumes inside: "in_arrays g st i"
      and signaled: "(revents inp AND POLLPRI) \<noteq> 0"
      and guard: "\<not> clock_fiddled inp st"
      and usec: "0 \<le> tv_usec inp" "tv_usec inp < 1000000"
      and sec: "start st \<le> tv_sec inp" "tv_sec inp - start st < 2147483"
      and tick: "0 \<le> ticks st ! i" "ticks st ! i \<le> INT_MAX"
  shows "\<exists>st' acts now_ms. process_line g pipe i inp st = Some (st', acts)
           \<and> now_ms = (tv_sec inp - start st) * 1000 + tv_usec inp div 1000
           \<and> (Set_Tick i now_ms \<in> set acts
                \<longleftrightarrow> now_ms - ticks st ! i > bounce_time g \<and> now_ms > 1000)"
proof -
  from process_line_returns [OF inside usec sec tick, of pipe]
  obtain st' acts where run: "process_line g pipe i inp st = Some (st', acts)"
    by auto
  from usec have "c_div (tv_usec inp) 1000 = tv_usec inp div 1000"
    by (simp add: c_div_def sgn_if)
  with debounce_when_defined [OF signaled guard run] run show ?thesis
    by auto
qed

text \<open>
  C1, at the failing input. The clock test lets pass every elapsed time up to a year,
  and the elapsed milliseconds are computed in \<open>double\<close> and then stored in an \<open>int\<close>,
  which holds 2147483647 ms, less than 25 days. Pin 17, 300 ms bounce time, no event
  accepted before: the interrupt 2147483647 ms after the start time is accepted, with
  that time. The interrupt one millisecond later is signaled and passes the clock test,
  its elapsed time of 2147483648 ms is more than 1000 and more than the bounce time
  after the last accepted time 0: yet that time is no \<open>int\<close>, the conversion has no
  defined result, and neither has the body: the transition is not accepted.
\<close>

theorem elapsed_overflow_undefined:
  "in_arrays both_edges boot_state 0
   \<and> (revents uptime_2147483647 AND POLLPRI) \<noteq> 0
   \<and> \<not> clock_fiddled uptime_2147483647 boot_state
   \<and> total_msec_of uptime_2147483647 boot_state = Some 2147483647
   \<and> process_line both_edges True 0 uptime_2147483647 boot_state
       = Some (boot_state\<lparr>ticks := (ticks boot_state)[0 := 2147483647]\<rparr>,
               [Drain 0, Usleep 2000, Sample 17, Emit Pipe (''17 1'' @ [CHR 10]), Flush,
                Set_Tick 0 2147483647])
   \<and> (revents uptime_2147483648 AND POLLPRI) \<noteq> 0
   \<and> \<not> clock_fiddled uptime_2147483648 boot_state
   \<and> (tv_sec uptime_2147483648 - start boot_state) * 1000
        + c_div (tv_usec uptime_2147483648) 1000 = 2147483648
   \<and> 2147483648 - ticks boot_state ! 0 > bounce_time both_edges
   \<and> (2147483648 :: int) > 1000
   \<and> to_int 2147483648 = None
   \<and> total_msec_of uptime_2147483648 boot_state = None
   \<and> process_line both_edges True 0 uptime_2147483648 boot_state = None"
proof -
  have "in_arrays both_edges boot_state 0"
    by code_simp
  moreover have "(revents uptime_2147483647 AND POLLPRI) \<noteq> 0"
    by code_simp
  moreover have "\<not> clock_fiddled uptime_2147483647 boot_state"
    by code_simp
  moreover have "total_msec_of uptime_2147483647 boot_state = Some 2147483647"
    by code_simp
  moreover have "process_line both_edges True 0 uptime_2147483647 boot_state
       = Some (boot_state\<lparr>ticks := (ticks boot_state)[0 := 2147483647]\<rparr>,
               [Drain 0, Usleep 2000, Sample 17, Emit Pipe (''17 1'' @ [CHR 10]), Flush,
                Set_Tick 0 2147483647])"
    by code_simp
  moreover have "(revents uptime_2147483648 AND POLLPRI) \<noteq> 0"
    by code_simp
  moreover have "\<not> clock_fiddled uptime_2147483648 boot_state"
    by code_simp
  moreover have "(tv_sec uptime_2147483648 - start boot_state) * 1000
        + c_div (tv_usec uptime_2147483648) 1000 = 2147483648"
    by code_simp
  moreover have "2147483648 - ticks boot_state ! 0 > bounce_time both_edges"
    by code_simp
  moreover have "to_int 2147483648 = None"
    by code_simp
  moreover have "total_msec_of uptime_2147483648 boot_state = None"
    by code_simp
  moreover have "process_line both_edges True 0 uptime_2147483648 boot_state = None"
    by code_simp
  ultimately show ?thesis
    by simp
qed

subsection \<open>The times of acceptance along a run\<close>

text \<open>
  Two parts of a run, one after the other: when in each part the values assigned to
  \<open>ticks[l]\<close> are spaced, start from the value \<open>ticks[l]\<close> had and end in the value it
  has, the same holds of the whole.
\<close>

lemma successively_chain:
  "successively P (x # xs) \<Longrightarrow> successively P (last (x # xs) # ys) \<Longrightarrow>
   successively P (x # xs @ ys)"
  by (induction xs arbitrary: x) (simp_all add: successively_Cons)

lemma spaced_compose:
  assumes "length (ticks st1) = length (ticks st)
         \<and> successively P (ticks st ! l # xs) \<and> last (ticks st ! l # xs) = ticks st1 ! l"
      and "length (ticks st2) = length (ticks st1)
         \<and> successively P (ticks st1 ! l # ys) \<and> last (ticks st1 ! l # ys) = ticks st2 ! l"
  shows "length (ticks st2) = length (ticks st)
         \<and> successively P (ticks st ! l # xs @ ys) \<and> last (ticks st ! l # xs @ ys) = ticks st2 ! l"
proof -
  from assms have "successively P (ticks st ! l # xs @ ys)"
    by (simp add: successively_chain)
  moreover from assms have "last (ticks st ! l # xs @ ys) = ticks st2 ! l"
    by (cases "ys = []") auto
  ultimately show ?thesis using assms by simp
qed

lemma process_line_ticks:
  assumes run: "process_line g pipe i inp st = Some (st', acts)"
  shows "length (ticks st') = length (ticks st)
       \<and> successively (\<lambda>t1 t2. t2 - t1 > bounce_time g) (ticks st ! l # tick_times l acts)
       \<and> last (ticks st ! l # tick_times l acts) = ticks st' ! l"
  using run
proof (cases rule: process_line_cases)
  case (accept t)
  then show ?thesis using process_line_in_arrays [OF run]
    by (auto simp: tick_times_append tick_times_report in_arrays_def)
qed simp_all

lemma process_lines_ticks:
  assumes "process_lines g pipe i inps st = Some (st', acts)"
  shows "length (ticks st') = length (ticks st)
       \<and> successively (\<lambda>t1 t2. t2 - t1 > bounce_time g) (ticks st ! l # tick_times l acts)
       \<and> last (ticks st ! l # tick_times l acts) = ticks st' ! l"
  using assms
proof (induction inps arbitrary: i st st' acts)
  case Nil
  then show ?case by simp
next
  case (Cons inp rest)
  show ?case
  proof (cases "i < npins g")
    case False
    with Cons.prems show ?thesis by simp
  next
    case True
    with Cons.prems obtain st1 a1 a2 where
      one: "process_line g pipe i inp st = Some (st1, a1)" and
      more: "process_lines g pipe (Suc i) rest st1 = Some (st', a2)" and
      acts: "acts = a1 @ a2"
      by (auto simp: bind_eq_Some_conv)
    from process_line_ticks [OF one, of l]
    have first: "length (ticks st1) = length (ticks st)
       \<and> successively (\<lambda>t1 t2. t2 - t1 > bounce_time g) (ticks st ! l # tick_times l a1)
       \<and> last (ticks st ! l # tick_times l a1) = ticks st1 ! l" .
    from spaced_compose [OF first Cons.IH [OF more]] acts
    show ?thesis by (simp add: tick_times_append)
  qed
qed

lemma process_cycle_ticks:
  assumes "process_cycle g pipe inps st = Some (st', acts)"
  shows "length (ticks st') = length (ticks st)
       \<and> successively (\<lambda>t1 t2. t2 - t1 > bounce_time g) (ticks st ! l # tick_times l acts)
       \<and> last (ticks st ! l # tick_times l acts) = ticks st' ! l"
proof -
  from assms obtain a1 where
    lines: "process_lines g pipe 0 inps st = Some (st', a1)" and acts: "acts = Poll 3000 # a1"
    by (auto simp: process_cycle_def bind_eq_Some_conv)
  from process_lines_ticks [OF lines, of l] acts show ?thesis by simp
qed

lemma run_loop_ticks:
  assumes "run_loop g pipe cycles st = Some (st', acts)"
  shows "length (ticks st') = length (ticks st)
       \<and> successively (\<lambda>t1 t2. t2 - t1 > bounce_time g) (ticks st ! l # tick_times l acts)
       \<and> last (ticks st ! l # tick_times l acts) = ticks st' ! l"
  using assms
proof (induction cycles arbitrary: st st' acts)
  case Nil
  then show ?case by simp
next
  case (Cons c cs)
  from Cons.prems obtain st1 a1 a2 where
    one: "process_cycle g pipe c st = Some (st1, a1)" and
    more: "run_loop g pipe cs st1 = Some (st', a2)" and
    acts: "acts = a1 @ a2"
    by (auto simp: bind_eq_Some_conv)
  from process_cycle_ticks [OF one, of l]
  have first: "length (ticks st1) = length (ticks st)
     \<and> successively (\<lambda>t1 t2. t2 - t1 > bounce_time g) (ticks st ! l # tick_times l a1)
     \<and> last (ticks st ! l # tick_times l a1) = ticks st1 ! l" .
  from spaced_compose [OF first Cons.IH [OF more]] acts
  show ?case by (simp add: tick_times_append)
qed

text \<open>
  C2. Along any run of the loop with defined behaviour, and for every line \<open>l\<close>, the
  times assigned to \<open>ticks[l]\<close>, one for each accepted event of the line in the order of
  acceptance and preceded by the value \<open>ticks[l]\<close> had when the run began, never hold two
  consecutive entries \<open>t1\<close>, \<open>t2\<close> with \<open>t2 - t1\<close> at most the bounce time: each accepted
  event is more than \<open>bounce_time\<close> ms after the accepted event before it.
\<close>

theorem accepted_times_spaced:
  assumes "run_loop g pipe cycles st = Some (st', acts)"
  shows "successively (\<lambda>t1 t2. t2 - t1 > bounce_time g) (ticks st ! l # tick_times l acts)"
  using run_loop_ticks [OF assms] by simp

text \<open>
  The press at 1200 ms, the bounce at 1250 ms and the release at 1600 ms of pin 17, with
  a bounce time of 300 ms: the events written are \<open>17 1\<close> and \<open>17 0\<close>, accepted at 1200 and
  at 1600.
\<close>

theorem accepted_times_spaced_witness:
  "run_loop both_edges True
      [[press_1200, quiet_at 1700000001 200000], [bounce_1250], [release_1600]] boot_state
     = Some (boot_state\<lparr>ticks := (ticks boot_state)[0 := 1600]\<rparr>,
             [Poll 3000, Drain 0, Usleep 2000, Sample 17, Emit Pipe (''17 1'' @ [CHR 10]),
              Flush, Set_Tick 0 1200,
              Poll 3000, Drain 0,
              Poll 3000, Drain 0, Usleep 2000, Sample 17, Emit Pipe (''17 0'' @ [CHR 10]),
              Flush, Set_Tick 0 1600])
   \<and> successively (\<lambda>t1 t2. t2 - t1 > bounce_time both_edges) [0, 1200, 1600]"
proof -
  let ?acts = "[Poll 3000, Drain 0, Usleep 2000, Sample 17, Emit Pipe (''17 1'' @ [CHR 10]),
              Flush, Set_Tick 0 1200,
              Poll 3000, Drain 0,
              Poll 3000, Drain 0, Usleep 2000, Sample 17, Emit Pipe (''17 0'' @ [CHR 10]),
              Flush, Set_Tick 0 1600]"
  have run: "run_loop both_edges True
      [[press_1200, quiet_at 1700000001 200000], [bounce_1250], [release_1600]] boot_state
     = Some (boot_state\<lparr>ticks := (ticks boot_state)[0 := 1600]\<rparr>, ?acts)"
    by code_simp
  have "ticks boot_state ! 0 # tick_times 0 ?acts = [0, 1200, 1600]"
    by code_simp
  with accepted_times_spaced [OF run, of 0] run show ?thesis
    by simp
qed

text \<open>
  The same for any two accepted events of a line, consecutive or not, such as two
  events that were written with accepted but unwritten ones between them: when the
  later one bears the later time, the two are more than \<open>bounce_time\<close> ms apart.
\<close>

lemma accepted_times_any_two:
  assumes run: "run_loop g pipe cycles st = Some (st', acts)"
      and ts: "ts = ticks st ! l # tick_times l acts"
      and order: "j < k" "k < length ts" "ts ! j < ts ! k"
  shows "ts ! k - ts ! j > bounce_time g"
proof (cases "0 \<le> bounce_time g")
  case True
  from run_loop_ticks [OF run, of l] ts
  have "successively (\<lambda>t1 t2. t2 - t1 > bounce_time g) ts"
    by simp
  moreover have "successively (\<lambda>t1 t2. t2 - t1 > bounce_time g) ts
      \<longleftrightarrow> sorted_wrt (\<lambda>t1 t2. t2 - t1 > bounce_time g) ts"
    using True by (intro successively_iff_sorted_wrt_strong) linarith
  ultimately have "sorted_wrt (\<lambda>t1 t2. t2 - t1 > bounce_time g) ts"
    by simp
  with order show ?thesis
    by (simp add: sorted_wrt_iff_nth_less)
next
  case False
  with order show ?thesis by linarith
qed

subsection \<open>The clock test\<close>

text \<open>
  With one reading \<open>now\<close> of the clock, the test of the loop holds when \<open>now\<close> is more
  than a year after \<open>start\<close>, or when \<open>now\<close> is not after \<open>start\<close> and \<open>- now - start\<close>
  exceeds a year. The second arm of the macro \<open>abs\<close> negates \<open>time (NULL)\<close> only, so
  for times that are not negative a clock set back is not detected, however far.
\<close>

lemma clock_fiddled_one_reading:
  assumes "time_test inp = now" and "time_arm inp = now"
  shows "clock_fiddled inp st \<longleftrightarrow>
           now - start st > CLOCK_ERROR_SECONDS
         \<or> (now \<le> start st \<and> - now - start st > CLOCK_ERROR_SECONDS)"
  using assms
  by (auto simp: clock_fiddled_def abs_macro_def CLOCK_ERROR_SECONDS_def SEC_PER_YEAR_def)

lemma backward_jump_undetected:
  assumes "time_test inp = now" and "time_arm inp = now"
      and "0 \<le> now" and "now \<le> start st"
  shows "\<not> clock_fiddled inp st"
  using assms
  by (auto simp: clock_fiddled_def abs_macro_def CLOCK_ERROR_SECONDS_def SEC_PER_YEAR_def)

text \<open>
  C3, amended. Whenever a signaled entry (one inside the arrays) is handled and the
  clock reads more than one year (31536000 seconds) after the stored start time, the
  program resets the baseline to the clock, and the handling of that entry emits no
  event and assigns to no entry of \<open>ticks\<close>: it consists of the draining read and the
  reset.
\<close>

theorem forward_jump_resets_baseline:
  assumes inside: "in_arrays g st i"
      and signaled: "(revents inp AND POLLPRI) \<noteq> 0"
      and test: "time_test inp - start st > 0"
      and arm: "time_arm inp - start st > CLOCK_ERROR_SECONDS"
  shows "process_line g pipe i inp st =
           Some (st\<lparr>start := time_reset inp\<rparr>, [Drain i, Reset_Start (time_reset inp)])
       \<and> ticks (st\<lparr>start := time_reset inp\<rparr>) = ticks st
       \<and> emitted [Drain i, Reset_Start (time_reset inp)] = []
       \<and> tick_times l [Drain i, Reset_Start (time_reset inp)] = []"
proof -
  from test arm have "clock_fiddled inp st"
    by (simp add: clock_fiddled_def abs_macro_def)
  with inside signaled show ?thesis
    by (simp add: process_line_reset)
qed

text \<open>The time is set while pin 17 is handled: the baseline moves from 100 to 2000000000.\<close>

theorem forward_jump_resets_baseline_witness:
  "in_arrays both_edges cold_state 0
   \<and> (revents time_set AND POLLPRI) \<noteq> 0
   \<and> time_test time_set - start cold_state > 0
   \<and> time_arm time_set - start cold_state > CLOCK_ERROR_SECONDS
   \<and> process_line both_edges True 0 time_set cold_state =
       Some (cold_state\<lparr>start := 2000000000\<rparr>, [Drain 0, Reset_Start 2000000000])
   \<and> ticks (cold_state\<lparr>start := 2000000000\<rparr>) = ticks cold_state"
proof -
  have h0: "in_arrays both_edges cold_state 0"
    by code_simp
  have h1: "(revents time_set AND POLLPRI) \<noteq> 0"
    by code_simp
  have h2: "time_test time_set - start cold_state > 0"
    by code_simp
  have h3: "time_arm time_set - start cold_state > CLOCK_ERROR_SECONDS"
    by code_simp
  have r: "time_reset time_set = 2000000000"
    by code_simp
  from forward_jump_resets_baseline [OF h0 h1 h2 h3, of True 0] h0 h1 h2 h3
  show ?thesis
    by (simp add: r)
qed

text \<open>
  The clock is tested for each signaled entry, not once for a wake-up, and there the
  sentence of the specification fails: in one wake-up both pins are signaled; the clock
  is more than a year after the start time when pin 17 is handled, which resets the
  baseline, and pin 27, handled 6 ms later in the same wake-up, is accepted against the
  new baseline: an event is written and \<open>ticks[1]\<close> is assigned.
\<close>

theorem clock_jump_cycle_counterexample:
  "\<bar>time_test time_set - start cold_state\<bar> > SEC_PER_YEAR
   \<and> process_cycle both_edges True [time_set, soon_after] cold_state
       = Some (\<lparr>start = 2000000000, ticks = (replicate MAX_PINS 0)[1 := 1005]\<rparr>,
               [Poll 3000, Drain 0, Reset_Start 2000000000,
                Drain 1, Usleep 2000, Sample 27, Emit Pipe (''27 1'' @ [CHR 10]), Flush,
                Set_Tick 1 1005])
   \<and> emitted [Poll 3000, Drain 0, Reset_Start 2000000000,
                Drain 1, Usleep 2000, Sample 27, Emit Pipe (''27 1'' @ [CHR 10]), Flush,
                Set_Tick 1 1005] = [''27 1'' @ [CHR 10]]
   \<and> ticks cold_state ! 1 = 0"
proof -
  have "\<bar>time_test time_set - start cold_state\<bar> > SEC_PER_YEAR"
    by code_simp
  moreover have "process_cycle both_edges True [time_set, soon_after] cold_state
       = Some (\<lparr>start = 2000000000, ticks = (replicate MAX_PINS 0)[1 := 1005]\<rparr>,
               [Poll 3000, Drain 0, Reset_Start 2000000000,
                Drain 1, Usleep 2000, Sample 27, Emit Pipe (''27 1'' @ [CHR 10]), Flush,
                Set_Tick 1 1005])"
    by code_simp
  moreover have "ticks cold_state ! 1 = 0"
    by code_simp
  ultimately show ?thesis
    by simp
qed

text \<open>
  A clock set back by more than a year while pin 17 is handled: the test does not hold
  and the baseline stays.
\<close>

lemma backward_jump_example:
  "\<bar>time_test (signaled_at 1600000000 0 high) - start boot_state\<bar> > SEC_PER_YEAR
   \<and> \<not> clock_fiddled (signaled_at 1600000000 0 high) boot_state"
  by code_simp

subsection \<open>The text of an event\<close>

text \<open>
  C4. For every event the body emits: when \<open>edge\<close> is both edges, the sampled state is 0
  or 1 and the line written is the pin number, a space, that state and a newline; when
  \<open>edge\<close> is rising only, the line is the pin number and a newline and the sampled state
  is 1, so no event with state 0 is emitted; when \<open>edge\<close> is falling only, the line is
  the pin number and a newline and the sampled state is 0.
\<close>

theorem emitted_event_format:
  assumes run: "process_line g pipe i inp st = Some (st', acts)"
      and em: "Emit k text \<in> set acts"
  shows "(edge g = (EDGE_FALLING OR EDGE_RISING) \<longrightarrow>
            (get_pin_state (sysfs inp) (pins g ! i) = 0
               \<and> text = show_int (pins g ! i) @ '' 0'' @ [CHR 10])
          \<or> (get_pin_state (sysfs inp) (pins g ! i) = 1
               \<and> text = show_int (pins g ! i) @ '' 1'' @ [CHR 10]))
       \<and> (edge g = EDGE_RISING \<longrightarrow>
            text = show_int (pins g ! i) @ [CHR 10]
          \<and> get_pin_state (sysfs inp) (pins g ! i) = 1)
       \<and> (edge g = EDGE_FALLING \<longrightarrow>
            text = show_int (pins g ! i) @ [CHR 10]
          \<and> get_pin_state (sysfs inp) (pins g ! i) = 0)"
  using run
proof (cases rule: process_line_cases)
  case (accept t)
  with em
  have "Emit k text \<in> set (report g pipe (pins g ! i) (get_pin_state (sysfs inp) (pins g ! i)))"
    by auto
  from report_emits [OF this] show ?thesis
    by (auto simp: event_text_def EDGE_FALLING_def EDGE_RISING_def show_int_0 show_int_1)
qed (use em in simp_all)

text \<open>
  The press of pin 17 under the three policies, and its release under falling only.
\<close>

theorem emitted_event_format_witness:
  "process_line both_edges True 0 press_1200 boot_state
     = Some (boot_state\<lparr>ticks := (ticks boot_state)[0 := 1200]\<rparr>,
             [Drain 0, Usleep 2000, Sample 17, Emit Pipe (''17 1'' @ [CHR 10]), Flush,
              Set_Tick 0 1200])
   \<and> edge both_edges = (EDGE_FALLING OR EDGE_RISING)
   \<and> get_pin_state (sysfs press_1200) (pins both_edges ! 0) = 1
   \<and> ''17 1'' @ [CHR 10] = show_int (pins both_edges ! 0) @ '' 1'' @ [CHR 10]
   \<and> process_line rising_only False 0 press_1200 boot_state
     = Some (boot_state\<lparr>ticks := (ticks boot_state)[0 := 1200]\<rparr>,
             [Drain 0, Usleep 2000, Sample 17, Emit Console (''17'' @ [CHR 10]),
              Set_Tick 0 1200])
   \<and> edge rising_only = EDGE_RISING
   \<and> get_pin_state (sysfs press_1200) (pins rising_only ! 0) = 1
   \<and> ''17'' @ [CHR 10] = show_int (pins rising_only ! 0) @ [CHR 10]
   \<and> process_line falling_only True 0 release_1200 boot_state
     = Some (boot_state\<lparr>ticks := (ticks boot_state)[0 := 1200]\<rparr>,
             [Drain 0, Usleep 2000, Sample 17, Emit Pipe (''17'' @ [CHR 10]), Flush,
              Set_Tick 0 1200])
   \<and> edge falling_only = EDGE_FALLING
   \<and> get_pin_state (sysfs release_1200) (pins falling_only ! 0) = 0"
proof -
  let ?st = "boot_state\<lparr>ticks := (ticks boot_state)[0 := 1200]\<rparr>"
  have b: "process_line both_edges True 0 press_1200 boot_state
     = Some (?st, [Drain 0, Usleep 2000, Sample 17, Emit Pipe (''17 1'' @ [CHR 10]), Flush,
                   Set_Tick 0 1200])"
    by code_simp
  have be: "edge both_edges = (EDGE_FALLING OR EDGE_RISING)"
    by code_simp
  have r: "process_line rising_only False 0 press_1200 boot_state
     = Some (?st, [Drain 0, Usleep 2000, Sample 17, Emit Console (''17'' @ [CHR 10]),
                   Set_Tick 0 1200])"
    by code_simp
  have re: "edge rising_only = EDGE_RISING"
    by code_simp
  have f: "process_line falling_only True 0 release_1200 boot_state
     = Some (?st, [Drain 0, Usleep 2000, Sample 17, Emit Pipe (''17'' @ [CHR 10]), Flush,
                   Set_Tick 0 1200])"
    by code_simp
  have fe: "edge falling_only = EDGE_FALLING"
    by code_simp
  have s: "get_pin_state (sysfs press_1200) (pins both_edges ! 0) \<noteq> 0"
    by code_simp
  from emitted_event_format [OF b, of Pipe "''17 1'' @ [CHR 10]"] be s
  have "get_pin_state (sysfs press_1200) (pins both_edges ! 0) = 1
      \<and> ''17 1'' @ [CHR 10] = show_int (pins both_edges ! 0) @ '' 1'' @ [CHR 10]"
    by simp
  moreover from emitted_event_format [OF r, of Console "''17'' @ [CHR 10]"] re
  have "''17'' @ [CHR 10] = show_int (pins rising_only ! 0) @ [CHR 10]
      \<and> get_pin_state (sysfs press_1200) (pins rising_only ! 0) = 1"
    by simp
  moreover from emitted_event_format [OF f, of Pipe "''17'' @ [CHR 10]"] fe
  have "get_pin_state (sysfs release_1200) (pins falling_only ! 0) = 0"
    by simp
  ultimately show ?thesis
    using b be r re f fe by simp
qed

subsection \<open>Reading the pin\<close>

lemma byte_is_0: "int (of_char c) - int (of_char (CHR ''0'')) = 0 \<longleftrightarrow> c = CHR ''0''"
proof -
  have "int (of_char c) - int (of_char (CHR ''0'')) = 0 \<longleftrightarrow> (of_char c :: nat) = of_char (CHR ''0'')"
    by linarith
  then show ?thesis by (simp only: of_char_eq_iff)
qed

lemma byte_is_1: "int (of_char c) - int (of_char (CHR ''0'')) = 1 \<longleftrightarrow> c = CHR ''1''"
proof -
  have "(of_char (CHR ''1'') :: nat) = of_char (CHR ''0'') + 1"
    by simp
  then have "int (of_char c) - int (of_char (CHR ''0'')) = 1 \<longleftrightarrow> (of_char c :: nat) = of_char (CHR ''1'')"
    by linarith
  then show ?thesis by (simp only: of_char_eq_iff)
qed

lemma get_pin_state_unopened: "fs (value_path pin) = None \<Longrightarrow> get_pin_state fs pin = - 1"
  by (simp add: get_pin_state_def c_read_def)

lemma get_pin_state_two:
  "fs (value_path pin) = Some [c, d] \<Longrightarrow>
   get_pin_state fs pin = int (of_char c) - int (of_char (CHR ''0''))"
  by (simp add: get_pin_state_def c_read_def)

lemma get_pin_state_other:
  "fs (value_path pin) = Some bytes \<Longrightarrow> length bytes \<noteq> 2 \<Longrightarrow> get_pin_state fs pin = - 1"
  by (auto simp: get_pin_state_def c_read_def min_def)

lemma length_2_conv: "length xs = 2 \<longleftrightarrow> (\<exists>c d. xs = [c, d])"
  by (cases xs; cases "tl xs") auto

text \<open>
  C9, amended. The Pin State Reader returns the read-failure result \<open>-1\<close> when the value
  file cannot be opened and when a read of at most three bytes does not deliver exactly
  two bytes. When it delivers exactly two bytes the result is the code of the first byte
  minus the code of the digit 0, whatever the second byte is: the result is 0 exactly
  when the first of two bytes is the digit 0, and 1 exactly when it is the digit 1.
\<close>

theorem get_pin_state_result:
  "get_pin_state fs pin =
     (case fs (value_path pin) of
        None \<Rightarrow> - 1
      | Some bytes \<Rightarrow>
          if length bytes = 2 then int (of_char (bytes ! 0)) - int (of_char (CHR ''0'')) else - 1)
   \<and> (get_pin_state fs pin = 0 \<longleftrightarrow> (\<exists>d. fs (value_path pin) = Some [CHR ''0'', d]))
   \<and> (get_pin_state fs pin = 1 \<longleftrightarrow> (\<exists>d. fs (value_path pin) = Some [CHR ''1'', d]))"
proof (cases "fs (value_path pin)")
  case None
  then show ?thesis by (simp add: get_pin_state_unopened)
next
  case (Some bytes)
  show ?thesis
  proof (cases "length bytes = 2")
    case True
    then obtain c d where "bytes = [c, d]"
      by (auto simp: length_2_conv)
    with Some have two: "fs (value_path pin) = Some [c, d]"
      by simp
    have r: "get_pin_state fs pin = int (of_char c) - int (of_char (CHR ''0''))"
      using two by (rule get_pin_state_two)
    have zero: "get_pin_state fs pin = 0 \<longleftrightarrow> c = CHR ''0''"
      unfolding r by (rule byte_is_0)
    have one: "get_pin_state fs pin = 1 \<longleftrightarrow> c = CHR ''1''"
      unfolding r by (rule byte_is_1)
    have "get_pin_state fs pin =
        (case fs (value_path pin) of
           None \<Rightarrow> - 1
         | Some bytes \<Rightarrow>
             if length bytes = 2 then int (of_char (bytes ! 0)) - int (of_char (CHR ''0'')) else - 1)"
      unfolding r using two by simp
    with zero one two show ?thesis
      by simp
  next
    case False
    with Some have "get_pin_state fs pin = - 1"
      by (rule get_pin_state_other)
    with Some False show ?thesis by auto
  qed
qed

text \<open>
  The sentence of the specification fails here: the two bytes \<open>0x\<close> are not one digit
  and a terminator, yet the reader returns 0 and the event \<open>17 0\<close> is written; and \<open>7\<close>
  with a newline is one digit and a terminator, and the reader returns 7, neither 0
  nor 1.
\<close>

theorem value_format_counterexample:
  "\<not> spec_value_format ''0x''
   \<and> get_pin_state (\<lambda>_. Some ''0x'') 17 = 0
   \<and> process_line both_edges True 0 garbled_1200 boot_state
       = Some (boot_state\<lparr>ticks := (ticks boot_state)[0 := 1200]\<rparr>,
               [Drain 0, Usleep 2000, Sample 17, Emit Pipe (''17 0'' @ [CHR 10]), Flush,
                Set_Tick 0 1200])
   \<and> spec_value_format [CHR ''7'', CHR 10]
   \<and> get_pin_state (\<lambda>_. Some [CHR ''7'', CHR 10]) 17 = 7"
proof -
  have "\<not> spec_value_format ''0x''"
    by code_simp
  moreover have "get_pin_state (\<lambda>_. Some ''0x'') 17 = 0"
    by code_simp
  moreover have "process_line both_edges True 0 garbled_1200 boot_state
       = Some (boot_state\<lparr>ticks := (ticks boot_state)[0 := 1200]\<rparr>,
               [Drain 0, Usleep 2000, Sample 17, Emit Pipe (''17 0'' @ [CHR 10]), Flush,
                Set_Tick 0 1200])"
    by code_simp
  moreover have "spec_value_format [CHR ''7'', CHR 10]"
    by code_simp
  moreover have "get_pin_state (\<lambda>_. Some [CHR ''7'', CHR 10]) 17 = 7"
    by code_simp
  ultimately show ?thesis
    by simp
qed

text \<open>
  C5, amended. When the Pin State Reader reports a read failure for a transition that
  passed the clock test and the debounce test, no event is emitted and the pin is sampled
  once, with no retry; \<open>start\<close> and the other entries of \<open>ticks\<close> are unchanged, and the
  loop continues; but the last-accepted time \<open>ticks[i]\<close> of the line is set to the
  current elapsed time.
\<close>

theorem read_failure_still_ticks:
  assumes signaled: "(revents inp AND POLLPRI) \<noteq> 0"
      and guard: "\<not> clock_fiddled inp st"
      and run: "process_line g pipe i inp st = Some (st', acts)"
      and now: "total_msec_of inp st = Some t"
      and pass: "t - ticks st ! i > bounce_time g" "t > 1000"
      and failure: "get_pin_state (sysfs inp) (pins g ! i) = - 1"
  shows "acts = [Drain i, Usleep 2000, Sample (pins g ! i), Set_Tick i t]
       \<and> st' = st\<lparr>ticks := (ticks st)[i := t]\<rparr>
       \<and> emitted acts = [] \<and> start st' = start st"
  using run
proof (cases rule: process_line_cases)
  case (accept t')
  with now failure show ?thesis by (simp add: report_def)
qed (use signaled guard now pass in simp_all)

text \<open>The value file of pin 17 cannot be opened after the interrupt at 1200 ms.\<close>

theorem read_failure_still_ticks_witness:
  "(revents unreadable_1200 AND POLLPRI) \<noteq> 0
   \<and> \<not> clock_fiddled unreadable_1200 boot_state
   \<and> process_line both_edges True 0 unreadable_1200 boot_state
       = Some (boot_state\<lparr>ticks := (ticks boot_state)[0 := 1200]\<rparr>,
               [Drain 0, Usleep 2000, Sample 17, Set_Tick 0 1200])
   \<and> total_msec_of unreadable_1200 boot_state = Some 1200
   \<and> 1200 - ticks boot_state ! 0 > bounce_time both_edges
   \<and> get_pin_state (sysfs unreadable_1200) (pins both_edges ! 0) = - 1
   \<and> emitted [Drain 0, Usleep 2000, Sample 17, Set_Tick 0 1200] = []"
proof -
  let ?acts = "[Drain 0, Usleep 2000, Sample 17, Set_Tick 0 1200]"
  have h1: "(revents unreadable_1200 AND POLLPRI) \<noteq> 0"
    by code_simp
  have h2: "\<not> clock_fiddled unreadable_1200 boot_state"
    by code_simp
  have h3: "process_line both_edges True 0 unreadable_1200 boot_state
       = Some (boot_state\<lparr>ticks := (ticks boot_state)[0 := 1200]\<rparr>, ?acts)"
    by code_simp
  have h4: "total_msec_of unreadable_1200 boot_state = Some 1200"
    by code_simp
  have h5: "1200 - ticks boot_state ! 0 > bounce_time both_edges"
    by code_simp
  have h6: "(1200 :: int) > 1000"
    by simp
  have h7: "get_pin_state (sysfs unreadable_1200) (pins both_edges ! 0) = - 1"
    by code_simp
  from read_failure_still_ticks [OF h1 h2 h3 h4 h5 h6 h7]
  have "emitted ?acts = []"
    by simp
  with h1 h2 h3 h4 h5 h7 show ?thesis
    by simp
qed

text \<open>
  The sentence of the specification fails here: the read fails, and the last-accepted
  time of the line changes from 0 to 1200.
\<close>

theorem read_failure_counterexample:
  "get_pin_state (sysfs unreadable_1200) (pins both_edges ! 0) = - 1
   \<and> process_line both_edges True 0 unreadable_1200 boot_state
       = Some (boot_state\<lparr>ticks := (ticks boot_state)[0 := 1200]\<rparr>,
               [Drain 0, Usleep 2000, Sample 17, Set_Tick 0 1200])
   \<and> ticks boot_state ! 0 = 0
   \<and> ticks (boot_state\<lparr>ticks := (ticks boot_state)[0 := 1200]\<rparr>) ! 0 = 1200"
proof -
  have "get_pin_state (sysfs unreadable_1200) (pins both_edges ! 0) = - 1"
    by code_simp
  moreover have "process_line both_edges True 0 unreadable_1200 boot_state
       = Some (boot_state\<lparr>ticks := (ticks boot_state)[0 := 1200]\<rparr>,
               [Drain 0, Usleep 2000, Sample 17, Set_Tick 0 1200])"
    by code_simp
  moreover have "ticks boot_state ! 0 = 0"
    by code_simp
  moreover have "ticks (boot_state\<lparr>ticks := (ticks boot_state)[0 := 1200]\<rparr>) ! 0 = 1200"
    by code_simp
  ultimately show ?thesis
    by simp
qed

text \<open>
  C10. When a transition passes the clock test and both conditions of the debounce test
  and is then rejected by the edge policy (state 0 sampled while falling edges are not
  reported, or state 1 while rising edges are not), nothing is emitted and the
  last-accepted time \<open>ticks[i]\<close> of the line is still set to the current elapsed time
  \<open>t\<close>. Every later transition of that line that passes the clock test at an elapsed
  time from \<open>t\<close> to \<open>t + bounce_time\<close> is therefore dropped: only the draining read
  happens and the state stays.
\<close>

theorem policy_rejected_still_ticks:
  assumes signaled: "(revents inp AND POLLPRI) \<noteq> 0"
      and guard: "\<not> clock_fiddled inp st"
      and run: "process_line g pipe i inp st = Some (st', acts)"
      and now: "total_msec_of inp st = Some t"
      and pass: "t - ticks st ! i > bounce_time g" "t > 1000"
      and rejected:
        "(get_pin_state (sysfs inp) (pins g ! i) = 0 \<and> (edge g AND EDGE_FALLING) = 0)
         \<or> (get_pin_state (sysfs inp) (pins g ! i) = 1 \<and> (edge g AND EDGE_RISING) = 0)"
  shows "st' = st\<lparr>ticks := (ticks st)[i := t]\<rparr> \<and> ticks st' ! i = t
       \<and> emitted acts = [] \<and> tick_times i acts = [t]
       \<and> (\<forall>inp2 t2. (revents inp2 AND POLLPRI) \<noteq> 0 \<and> \<not> clock_fiddled inp2 st'
            \<and> total_msec_of inp2 st' = Some t2 \<and> t \<le> t2 \<and> t2 - t \<le> bounce_time g
            \<longrightarrow> process_line g pipe i inp2 st' = Some (st', [Drain i]))"
proof -
  from rejected
  have silent: "report g pipe (pins g ! i) (get_pin_state (sysfs inp) (pins g ! i)) = []"
    by (auto simp: report_def)
  from run have "st' = st\<lparr>ticks := (ticks st)[i := t]\<rparr>
      \<and> acts = [Drain i, Usleep 2000, Sample (pins g ! i), Set_Tick i t]"
  proof (cases rule: process_line_cases)
    case (accept t')
    with now silent show ?thesis by simp
  qed (use signaled guard now pass in simp_all)
  then have st': "st' = st\<lparr>ticks := (ticks st)[i := t]\<rparr>"
    and acts: "acts = [Drain i, Usleep 2000, Sample (pins g ! i), Set_Tick i t]"
    by simp_all
  note inside = process_line_in_arrays [OF run]
  from st' inside have tick: "ticks st' ! i = t"
    by (simp add: in_arrays_def)
  from st' inside have inside': "in_arrays g st' i"
    by simp
  have later: "process_line g pipe i inp2 st' = Some (st', [Drain i])"
    if "(revents inp2 AND POLLPRI) \<noteq> 0" "\<not> clock_fiddled inp2 st'"
      "total_msec_of inp2 st' = Some t2" "t \<le> t2" "t2 - t \<le> bounce_time g"
    for inp2 t2
  proof -
    from that(3) have "t2 \<le> INT_MAX"
      by (auto simp: total_msec_of_def bind_eq_Some_conv to_int_Some)
    with that(4) have "to_int (t2 - ticks st' ! i) = Some (t2 - t)"
      using tick pass(2) by (simp add: to_int_Some INT_MIN_def)
    from process_line_bounce [OF inside' that(1) that(2) that(3) this] that(5)
    show ?thesis by simp
  qed
  from st' acts tick later show ?thesis by auto
qed

text \<open>
  Rising edges only: the release of pin 17 at 1200 ms is not reported, and the press
  200 ms later is dropped.
\<close>

theorem policy_rejected_still_ticks_witness:
  "(revents release_1200 AND POLLPRI) \<noteq> 0
   \<and> \<not> clock_fiddled release_1200 boot_state
   \<and> process_line rising_only True 0 release_1200 boot_state
       = Some (boot_state\<lparr>ticks := (ticks boot_state)[0 := 1200]\<rparr>,
               [Drain 0, Usleep 2000, Sample 17, Set_Tick 0 1200])
   \<and> total_msec_of release_1200 boot_state = Some 1200
   \<and> 1200 - ticks boot_state ! 0 > bounce_time rising_only
   \<and> get_pin_state (sysfs release_1200) (pins rising_only ! 0) = 0
   \<and> (edge rising_only AND EDGE_FALLING) = 0
   \<and> total_msec_of press_1400 (boot_state\<lparr>ticks := (ticks boot_state)[0 := 1200]\<rparr>) = Some 1400
   \<and> get_pin_state (sysfs press_1400) (pins rising_only ! 0) = 1
   \<and> process_line rising_only True 0 press_1400
        (boot_state\<lparr>ticks := (ticks boot_state)[0 := 1200]\<rparr>)
       = Some (boot_state\<lparr>ticks := (ticks boot_state)[0 := 1200]\<rparr>, [Drain 0])"
proof -
  let ?st = "boot_state\<lparr>ticks := (ticks boot_state)[0 := 1200]\<rparr>"
  have h1: "(revents release_1200 AND POLLPRI) \<noteq> 0"
    by code_simp
  have h2: "\<not> clock_fiddled release_1200 boot_state"
    by code_simp
  have h3: "process_line rising_only True 0 release_1200 boot_state
       = Some (?st, [Drain 0, Usleep 2000, Sample 17, Set_Tick 0 1200])"
    by code_simp
  have h4: "total_msec_of release_1200 boot_state = Some 1200"
    by code_simp
  have h5: "1200 - ticks boot_state ! 0 > bounce_time rising_only"
    by code_simp
  have h6: "(1200 :: int) > 1000"
    by simp
  have s: "get_pin_state (sysfs release_1200) (pins rising_only ! 0) = 0"
    by code_simp
  have e: "(edge rising_only AND EDGE_FALLING) = 0"
    by code_simp
  from s e
  have h7: "(get_pin_state (sysfs release_1200) (pins rising_only ! 0) = 0
              \<and> (edge rising_only AND EDGE_FALLING) = 0)
         \<or> (get_pin_state (sysfs release_1200) (pins rising_only ! 0) = 1
              \<and> (edge rising_only AND EDGE_RISING) = 0)"
    by simp
  have l1: "(revents press_1400 AND POLLPRI) \<noteq> 0"
    by code_simp
  have l2: "\<not> clock_fiddled press_1400 ?st"
    by code_simp
  have l3: "total_msec_of press_1400 ?st = Some 1400"
    by code_simp
  have l4: "(1400 :: int) - 1200 \<le> bounce_time rising_only"
    by code_simp
  have l5: "get_pin_state (sysfs press_1400) (pins rising_only ! 0) = 1"
    by code_simp
  from policy_rejected_still_ticks [OF h1 h2 h3 h4 h5 h6 h7] l1 l2 l3 l4
  have "process_line rising_only True 0 press_1400 ?st = Some (?st, [Drain 0])"
    by simp
  with h1 h2 h3 h4 h5 s e l3 l5 show ?thesis
    by simp
qed

subsection \<open>Startup and shutdown\<close>

lemma pbind_Inr:
  "pbind m f = (acts, Inr y) \<longleftrightarrow> (\<exists>a x b. m = (a, Inr x) \<and> f x = (b, Inr y) \<and> acts = a @ b)"
  by (cases m; cases "snd m") (auto simp: pbind_def split: prod.splits)

lemma pbind_exit [simp]: "pbind (a, Inl code) f = (a, Inl code)"
  by (simp add: pbind_def)

lemma pbind_act [simp]: "pbind (act a) f = (a # fst (f ()), snd (f ()))"
  by (simp add: pbind_def act_def split: prod.splits)

lemma pbind_ret [simp]: "pbind (ret x) f = f x"
  by (simp add: pbind_def ret_def split: prod.splits)

lemma exported_append: "exported (as @ bs) = exported as @ exported bs"
  by (induction as rule: exported.induct) simp_all

lemma released_unexport:
  "released (map (\<lambda>i. Write_File unexport_path (F i)) is) = map F is"
  by (induction "is") simp_all

text \<open>
  The options end the process with the usage or the version, or leave the array of pins
  alone and \<open>edge\<close> at one of its three values.
\<close>

lemma getopt_loop_result:
  "getopt_loop opts g f = (acts, r) \<Longrightarrow>
     (r = Inl (- 1) \<and> acts \<in> {[Show_Long_Usage], [Show_Version], [Show_Short_Usage]})
   \<or> (acts = [] \<and> (\<exists>g' f'. r = Inr (g', f') \<and> pins g' = pins g \<and> npins g' = npins g
         \<and> edge g' \<in> {edge g, EDGE_RISING, EDGE_FALLING}))"
proof (induction opts g f rule: getopt_loop.induct)
  case (1 g f)
  then show ?case by (auto simp: ret_def)
next
  case (2 c optarg rest g f)
  then show ?case
    by (simp add: exit_with_def split: if_splits) (blast | fastforce)+
qed

lemma unexport_loop_ok:
  "fopen_w e unexport_path \<Longrightarrow>
   unexport_loop e g is =
     (map (\<lambda>i. Write_File unexport_path (snprintf50 (show_int (pins g ! i)))) is, Inr ())"
  by (induction "is") (simp_all add: write_to_file_def ret_def)

text \<open>When the unexport file does not open, the first release ends the process.\<close>

lemma unexport_loop_fails:
  "\<not> fopen_w e unexport_path \<Longrightarrow> is \<noteq> [] \<Longrightarrow>
   unexport_loop e g is = ([Stderr (Cant_Write unexport_path)], Inl (- 1))"
  by (cases "is") (simp_all add: write_to_file_def exit_with_def)

lemma paths_differ:
  "direction_path pin \<noteq> export_path" "edge_path pin \<noteq> export_path"
  by (simp_all add: direction_path_def edge_path_def export_path_def snprintf50_def)

lemma export_loop_exported:
  "snd (export_loop e g is) = Inr u \<Longrightarrow>
   exported (fst (export_loop e g is)) = map (\<lambda>i. snprintf50 (show_int (pins g ! i))) is"
proof (induction "is")
  case Nil
  then show ?case by (simp add: ret_def)
next
  case (Cons i rest)
  then show ?case
    by (auto simp: write_to_file_def exit_with_def Let_def paths_differ split: if_splits)
qed

lemma open_loop_exported: "exported (fst (open_loop e g is)) = []"
  by (induction "is") (simp_all add: ret_def exit_with_def Let_def)

lemma install_handlers_eq:
  "install_handlers =
     ([Install_Handler SIGQUIT, Install_Handler SIGTERM, Install_Handler SIGHUP,
       Install_Handler SIGINT, Install_Handler SIGPIPE], Inr ())"
  by (simp add: install_handlers_def act_def pbind_def)

lemma open_pipe_exported: "exported (fst (open_pipe e f)) = []"
  by (simp add: open_pipe_def ret_def exit_with_def)

lemma map_nth_prefix: "map (\<lambda>i. h ((xs @ ys) ! i)) [0..<length xs] = map h xs"
proof -
  have "map (\<lambda>i. h ((xs @ ys) ! i)) [0..<length xs] = map (\<lambda>i. h (xs ! i)) [0..<length xs]"
    by (rule map_cong) (simp_all add: nth_append)
  also have "\<dots> = map h (map (\<lambda>i. xs ! i) [0..<length xs])"
    by (simp add: comp_def)
  also have "\<dots> = map h xs"
    by (simp only: map_nth)
  finally show ?thesis .
qed

text \<open>
  What holds when \<open>main\<close> reaches its loop: between 1 and \<open>MAX_PINS\<close> pins were
  given, they are the first \<open>npins\<close> entries of \<open>pins\<close>, \<open>ticks\<close> is zero, \<open>edge\<close> has one
  of its three values, and the lines exported are the pins given, in order, or none with
  \<open>-n\<close>.
\<close>

lemma startup_running:
  assumes "startup e opts args = (acts, Inr (g, pipe, st))"
  shows "1 \<le> length args \<and> length args \<le> MAX_PINS \<and> npins g = length args
       \<and> pins g = map atoi args @ replicate (MAX_PINS - length args) 0
       \<and> st = \<lparr>start = time_now e, ticks = replicate MAX_PINS 0\<rparr>
       \<and> edge g \<in> {EDGE_RISING OR EDGE_FALLING, EDGE_RISING, EDGE_FALLING}
       \<and> exported acts =
           (if no_export g then [] else map (\<lambda>a. snprintf50 (show_int (atoi a))) args)"
proof -
  obtain a0 r0 where opts: "getopt_loop opts initial_globals initial_flags = (a0, r0)"
    by (cases "getopt_loop opts initial_globals initial_flags")
  from assms opts obtain g0 f where r0: "r0 = Inr (g0, f)"
    by (cases r0) (auto simp: startup_def)
  from getopt_loop_result [OF opts] r0
  have a0: "a0 = []" and pins0: "pins g0 = replicate MAX_PINS 0"
    and edge0: "edge g0 \<in> {EDGE_RISING OR EDGE_FALLING, EDGE_RISING, EDGE_FALLING}"
    by (auto simp: initial_globals_def)
  define g1 where "g1 = g0\<lparr>pins := map atoi args @ drop (length args) (pins g0), npins := length args\<rparr>"
  define st1 where "st1 = \<lparr>start = time_now e, ticks = replicate MAX_PINS 0\<rparr>"
  from assms opts r0 a0
  have count: "1 \<le> length args" "length args \<le> MAX_PINS"
    and rest: "pbind (if \<not> no_export g1 then export_pins e g1 else ret ()) (\<lambda>_.
           pbind (open_loop e g1 [0..<npins g1]) (\<lambda>_.
           pbind install_handlers (\<lambda>_.
           pbind (open_pipe e f) (\<lambda>pipe.
           ret (g1, pipe, st1))))) = (acts, Inr (g, pipe, st))"
    by (auto simp: startup_def Let_def g1_def st1_def pbind_Inr exit_with_def Suc_le_eq
             split: if_splits)
  from rest obtain a1 a2 a3 a4 where
    exp: "(if \<not> no_export g1 then export_pins e g1 else ret ()) = (a1, Inr ())" and
    opn: "open_loop e g1 [0..<npins g1] = (a2, Inr ())" and
    ins: "install_handlers = (a3, Inr ())" and
    pip: "open_pipe e f = (a4, Inr pipe)" and
    res: "g = g1" "st = st1" "acts = a1 @ a2 @ a3 @ a4"
    by (auto simp: pbind_Inr ret_def)
  have "exported a2 = []"
    using open_loop_exported [of e g1 "[0..<npins g1]"] opn by simp
  moreover have "exported a3 = []"
    using ins by (auto simp: install_handlers_eq)
  moreover have "exported a4 = []"
    using open_pipe_exported [of e f] pip by simp
  moreover have "exported a1 =
      (if no_export g1 then [] else map (\<lambda>a. snprintf50 (show_int (atoi a))) args)"
  proof (cases "no_export g1")
    case True
    with exp show ?thesis by (simp add: ret_def)
  next
    case False
    with exp have "export_loop e g1 [0..<length args] = (a1, Inr ())"
      by (simp add: export_pins_def g1_def)
    with export_loop_exported [of e g1 "[0..<length args]" "()"]
    have "exported a1 = map (\<lambda>i. snprintf50 (show_int (pins g1 ! i))) [0..<length args]"
      by simp
    also have "\<dots> = map (\<lambda>a. snprintf50 (show_int (atoi a))) args"
      using map_nth_prefix [of "\<lambda>v. snprintf50 (show_int v)" "map atoi args"]
      by (simp add: g1_def comp_def)
    finally show ?thesis using False by simp
  qed
  ultimately have "exported acts =
      (if no_export g then [] else map (\<lambda>a. snprintf50 (show_int (atoi a))) args)"
    using res by (simp add: exported_append)
  moreover have "pins g = map atoi args @ replicate (MAX_PINS - length args) 0"
    using res pins0 by (simp add: g1_def)
  moreover have "npins g = length args" "st = \<lparr>start = time_now e, ticks = replicate MAX_PINS 0\<rparr>"
    using res by (simp_all add: g1_def st1_def)
  moreover have "edge g \<in> {EDGE_RISING OR EDGE_FALLING, EDGE_RISING, EDGE_FALLING}"
    using res edge0 by (simp add: g1_def)
  ultimately show ?thesis using count by simp
qed

text \<open>
  C6, amended. On receipt of any of the signals quit, interrupt, terminate, hangup and
  broken pipe while the loop runs, and provided export was disabled or the unexport
  file opens for writing, the handler releases every exported line exactly once: the
  texts it writes to the unexport file are the texts that startup wrote to the export
  file, one for each pin given and in the order given, and none when export was
  disabled; then the process exits with status 0. Otherwise, export being enabled and
  the unexport file not opening, the handler reports that at the first release and
  exits with the argument \<open>-1\<close>, status 255, and no line is released.
\<close>

theorem signal_releases_exported:
  assumes running: "startup e opts args = (acts, Inr (g, pipe, st))"
  shows "(no_export g \<or> fopen_w e' unexport_path \<longrightarrow>
            (\<exists>racts. quit_signal e' g sig = (racts, Inl 0)
               \<and> released racts = exported acts
               \<and> released racts =
                   (if no_export g then [] else map (\<lambda>a. snprintf50 (show_int (atoi a))) args)
               \<and> length racts = (if no_export g then 0 else length args)
               \<and> exit_status 0 = 0))
       \<and> (\<not> no_export g \<and> \<not> fopen_w e' unexport_path \<longrightarrow>
            quit_signal e' g sig = ([Stderr (Cant_Write unexport_path)], Inl (- 1))
          \<and> exit_status (- 1) = 255)"
proof -
  from startup_running [OF running]
  have n: "npins g = length args" and some: "1 \<le> length args"
    and p: "pins g = map atoi args @ replicate (MAX_PINS - length args) 0"
    and x: "exported acts =
           (if no_export g then [] else map (\<lambda>a. snprintf50 (show_int (atoi a))) args)"
    by simp_all
  show ?thesis
  proof (cases "no_export g")
    case True
    with x show ?thesis
      by (simp add: quit_signal_def exit_with_def exit_status_def)
  next
    case False
    show ?thesis
    proof (cases "fopen_w e' unexport_path")
      case writable: True
      have "map (\<lambda>i. snprintf50 (show_int (pins g ! i))) [0..<length args]
          = map (\<lambda>a. snprintf50 (show_int (atoi a))) args"
        using map_nth_prefix [of "\<lambda>v. snprintf50 (show_int v)" "map atoi args"]
        by (simp add: p comp_def)
      then show ?thesis
        using False writable x n unexport_loop_ok [OF writable, of g "[0..<npins g]"]
          released_unexport [of "\<lambda>i. snprintf50 (show_int (pins g ! i))" "[0..<length args]"]
        by (simp add: quit_signal_def unexport_pins_def exit_with_def pbind_def exit_status_def)
    next
      case unwritable: False
      from n some have "[0..<npins g] \<noteq> []"
        by auto
      from unexport_loop_fails [OF unwritable this, of g] False unwritable
      show ?thesis
        by (simp add: quit_signal_def unexport_pins_def exit_status_def)
    qed
  qed
qed

text \<open>
  \<open>pi-button-pipe 17 27\<close> with every file opening, then a terminate signal; and a
  broken pipe when no file opens for writing any more.
\<close>

theorem signal_releases_exported_witness:
  "startup all_open [] [''17'', ''27'']
     = (fst (startup all_open [] [''17'', ''27'']), Inr (both_edges, True, boot_state))
   \<and> fopen_w all_open unexport_path
   \<and> quit_signal all_open both_edges SIGTERM
       = ([Write_File unexport_path ''17'', Write_File unexport_path ''27''], Inl 0)
   \<and> exported (fst (startup all_open [] [''17'', ''27''])) = [''17'', ''27'']
   \<and> (\<exists>racts. quit_signal all_open both_edges SIGTERM = (racts, Inl 0)
         \<and> released racts = exported (fst (startup all_open [] [''17'', ''27''])))
   \<and> \<not> no_export both_edges
   \<and> \<not> fopen_w read_only unexport_path
   \<and> quit_signal read_only both_edges SIGPIPE
       = ([Stderr (Cant_Write unexport_path)], Inl (- 1))"
proof -
  have "snd (startup all_open [] [''17'', ''27'']) = Inr (both_edges, True, boot_state)"
    by code_simp
  then have h1: "startup all_open [] [''17'', ''27'']
     = (fst (startup all_open [] [''17'', ''27'']), Inr (both_edges, True, boot_state))"
    by (simp add: prod_eq_iff)
  have h2: "fopen_w all_open unexport_path"
    by code_simp
  have q: "quit_signal all_open both_edges SIGTERM
       = ([Write_File unexport_path ''17'', Write_File unexport_path ''27''], Inl 0)"
    by code_simp
  have x: "exported (fst (startup all_open [] [''17'', ''27''])) = [''17'', ''27'']"
    by code_simp
  have h3: "\<not> no_export both_edges"
    by code_simp
  have h4: "\<not> fopen_w read_only unexport_path"
    by code_simp
  from signal_releases_exported [OF h1, of all_open SIGTERM] h2
  have "\<exists>racts. quit_signal all_open both_edges SIGTERM = (racts, Inl 0)
         \<and> released racts = exported (fst (startup all_open [] [''17'', ''27'']))"
    by blast
  moreover from signal_releases_exported [OF h1, of read_only SIGPIPE] h3 h4
  have "quit_signal read_only both_edges SIGPIPE
       = ([Stderr (Cant_Write unexport_path)], Inl (- 1))"
    by blast
  ultimately show ?thesis
    using h1 h2 q x h3 h4 by simp
qed

text \<open>
  The sentence of the specification fails here: when the unexport file does not open
  for writing, the handler reports it and exits with status 255, and no line is
  released.
\<close>

theorem signal_unwritable_counterexample:
  "snd (startup all_open [] [''17'', ''27'']) = Inr (both_edges, True, boot_state)
   \<and> exported (fst (startup all_open [] [''17'', ''27''])) = [''17'', ''27'']
   \<and> quit_signal read_only both_edges SIGTERM
       = ([Stderr (Cant_Write unexport_path)], Inl (- 1))
   \<and> released [Stderr (Cant_Write unexport_path)] = []
   \<and> exit_status (- 1) = 255"
proof -
  have "snd (startup all_open [] [''17'', ''27'']) = Inr (both_edges, True, boot_state)"
    by code_simp
  moreover have "exported (fst (startup all_open [] [''17'', ''27''])) = [''17'', ''27'']"
    by code_simp
  moreover have "quit_signal read_only both_edges SIGTERM
       = ([Stderr (Cant_Write unexport_path)], Inl (- 1))"
    by code_simp
  moreover have "exit_status (- 1) = 255"
    by (simp add: exit_status_def)
  ultimately show ?thesis
    by simp
qed

text \<open>
  C7, at the failing input. \<open>pi-button-pipe 17 27\<close> where the value file of pin 27 does
  not open: both pins are exported, the value file of pin 17 is opened, the failure is
  reported and the process exits with the argument \<open>-1\<close> before the loop; nothing is
  written to the unexport file, so the two exported lines stay exported.
\<close>

theorem failed_open_leaves_exports:
  "startup no_value_27 [] [''17'', ''27'']
     = ([Write_File export_path ''17'',
         Write_File ''/sys/class/gpio/gpio17/direction'' ''in'',
         Write_File ''/sys/class/gpio/gpio17/edge'' ''both'',
         Write_File export_path ''27'',
         Write_File ''/sys/class/gpio/gpio27/direction'' ''in'',
         Write_File ''/sys/class/gpio/gpio27/edge'' ''both'',
         Open_Handle ''/sys/class/gpio/gpio17/value'',
         Stderr (Cant_Open_Gpio ''/sys/class/gpio/gpio27/value'')],
        Inl (- 1))
   \<and> no_export initial_globals = False
   \<and> exported (fst (startup no_value_27 [] [''17'', ''27''])) = [''17'', ''27'']
   \<and> released (fst (startup no_value_27 [] [''17'', ''27''])) = []"
proof -
  have "startup no_value_27 [] [''17'', ''27'']
     = ([Write_File export_path ''17'',
         Write_File ''/sys/class/gpio/gpio17/direction'' ''in'',
         Write_File ''/sys/class/gpio/gpio17/edge'' ''both'',
         Write_File export_path ''27'',
         Write_File ''/sys/class/gpio/gpio27/direction'' ''in'',
         Write_File ''/sys/class/gpio/gpio27/edge'' ''both'',
         Open_Handle ''/sys/class/gpio/gpio17/value'',
         Stderr (Cant_Open_Gpio ''/sys/class/gpio/gpio27/value'')],
        Inl (- 1))"
    by code_simp
  moreover have "no_export initial_globals = False"
    by code_simp
  moreover have "exported (fst (startup no_value_27 [] [''17'', ''27''])) = [''17'', ''27'']"
    by code_simp
  moreover have "released (fst (startup no_value_27 [] [''17'', ''27''])) = []"
    by code_simp
  ultimately show ?thesis
    by simp
qed

text \<open>
  C8. When no pin is given, or more than \<open>MAX_PINS\<close> (20), \<open>main\<close> exits with the
  argument \<open>-1\<close>, a nonzero status, after printing a usage, the version or the
  diagnostic and nothing else: no file is written, no value file is opened and the pipe
  is neither created nor opened.
\<close>

theorem bad_pin_count_exits:
  assumes "length args < 1 \<or> length args > MAX_PINS"
  shows "snd (startup e opts args) = Inl (- 1)
       \<and> fst (startup e opts args) \<in>
            {[Show_Long_Usage], [Show_Version], [Show_Short_Usage], [Stderr Too_Many_Pins]}
       \<and> (\<forall>a \<in> set (fst (startup e opts args)). \<not> acquires a)
       \<and> exit_status (- 1) \<noteq> 0"
proof -
  obtain a0 r0 where opts: "getopt_loop opts initial_globals initial_flags = (a0, r0)"
    by (cases "getopt_loop opts initial_globals initial_flags")
  have status: "exit_status (- 1) \<noteq> 0"
    by (simp add: exit_status_def)
  from getopt_loop_result [OF opts] show ?thesis
  proof
    assume "r0 = Inl (- 1) \<and> a0 \<in> {[Show_Long_Usage], [Show_Version], [Show_Short_Usage]}"
    with opts status show ?thesis
      by (auto simp: startup_def)
  next
    assume "a0 = [] \<and> (\<exists>g' f'. r0 = Inr (g', f') \<and> pins g' = pins initial_globals
       \<and> npins g' = npins initial_globals
       \<and> edge g' \<in> {edge initial_globals, EDGE_RISING, EDGE_FALLING})"
    then obtain g' f' where parsed: "getopt_loop opts initial_globals initial_flags = ([], Inr (g', f'))"
      using opts by auto
    from assms show ?thesis
    proof
      assume "length args < 1"
      with parsed have "startup e opts args = ([Show_Short_Usage], Inl (- 1))"
        by (simp add: startup_def pbind_def exit_with_def act_def)
      with status show ?thesis by simp
    next
      assume "length args > MAX_PINS"
      then have "\<not> length args < 1" by auto
      with parsed \<open>length args > MAX_PINS\<close>
      have "startup e opts args = ([Stderr Too_Many_Pins], Inl (- 1))"
        by (simp add: startup_def pbind_def exit_with_def act_def)
      with status show ?thesis by simp
    qed
  qed
qed

text \<open>No pin at all, and 21 pins with the option \<open>-n\<close>.\<close>

theorem bad_pin_count_exits_witness:
  "length ([] :: string list) < 1
   \<and> startup all_open [] [] = ([Show_Short_Usage], Inl (- 1))
   \<and> \<not> acquires Show_Short_Usage
   \<and> length (replicate 21 ''4'') > MAX_PINS
   \<and> startup all_open [(CHR ''n'', [])] (replicate 21 ''4'') = ([Stderr Too_Many_Pins], Inl (- 1))
   \<and> \<not> acquires (Stderr Too_Many_Pins)
   \<and> exit_status (- 1) = 255"
proof -
  have h1: "length ([] :: string list) < 1 \<or> length ([] :: string list) > MAX_PINS"
    by simp
  have h2: "length (replicate 21 ''4'') < 1 \<or> length (replicate 21 ''4'') > MAX_PINS"
    by (simp add: MAX_PINS_def)
  have r1: "startup all_open [] [] = ([Show_Short_Usage], Inl (- 1))"
    by code_simp
  have r2: "startup all_open [(CHR ''n'', [])] (replicate 21 ''4'')
      = ([Stderr Too_Many_Pins], Inl (- 1))"
    by code_simp
  from bad_pin_count_exits [OF h1, of all_open "[]"] r1
  have "\<not> acquires Show_Short_Usage"
    by simp
  moreover from bad_pin_count_exits [OF h2, of all_open "[(CHR ''n'', [])]"] r2
  have "\<not> acquires (Stderr Too_Many_Pins)"
    by simp
  moreover have "exit_status (- 1) = 255"
    by (simp add: exit_status_def)
  ultimately show ?thesis
    using r1 r2 by (simp add: MAX_PINS_def)
qed

end
